theory Spec2Isabelle
  imports Main "HOL-Library.AList"
begin

section \<open>Python values, exceptions and dictionaries\<close>

text \<open>
  The values a parsed TOML or JSON document is made of, as the Python code sees them.
  A dictionary is an association list in insertion order, as Python's \<open>dict\<close> keeps
  it. \<open>PObj\<close> stands for an object of any other class (a float, a bound method, ...),
  named by a description.
\<close>

datatype pyval =
    PNone
  | PBool bool
  | PInt int
  | PStr string
  | PList "pyval list"
  | PDict "(string \<times> pyval) list"
  | PObj string

text \<open>
  Every \<open>raise\<close> of the sources and every exception of the interpreter that the
  modelled code can meet is a value. \<open>PoeException\<close> carries its message and its
  optional cause; \<open>Unmodelled\<close> marks an input outside the declared types for which
  the embedding does not say what Python does.
\<close>

datatype error =
    PoeException string "error option"
  | ExecutionError string
  | KeyError string
  | NameError string
  | TypeError string
  | AttributeError string
  | IndexError string
  | AssertionError
  | TOMLDecodeError string
  | JSONDecodeError string
  | OSError string
  | Unmodelled string



text \<open>Truth value of an object, as \<open>if x:\<close> and \<open>not x\<close> test it.\<close>

fun truthy :: "pyval \<Rightarrow> bool" where
  "truthy PNone = False"
| "truthy (PBool b) = b"
| "truthy (PInt i) = (i \<noteq> 0)"
| "truthy (PStr s) = (s \<noteq> [])"
| "truthy (PList xs) = (xs \<noteq> [])"
| "truthy (PDict d) = (d \<noteq> [])"
| "truthy (PObj d) = True"

text \<open>\<open>s.startswith(p)\<close> and \<open>sub in s\<close> on strings.\<close>

fun startswith :: "string \<Rightarrow> string \<Rightarrow> bool" where
  "startswith s [] = True"
| "startswith [] (p # ps) = False"
| "startswith (c # cs) (p # ps) = (c = p \<and> startswith cs ps)"

fun contains_str :: "string \<Rightarrow> string \<Rightarrow> bool" where
  "contains_str [] sub = (sub = [])"
| "contains_str (c # cs) sub = (startswith (c # cs) sub \<or> contains_str cs sub)"

text \<open>
  \<open>repr\<close> of a string: single quotes, unless the string holds a single quote and no
  double quote; the quote in use, the backslash and the control characters are escaped.
\<close>

definition hex_digit :: "nat \<Rightarrow> char" where
  "hex_digit n = ''0123456789abcdef'' ! (n mod 16)"

definition repr_char :: "char \<Rightarrow> char \<Rightarrow> string" where
  "repr_char q c =
     (if c = q \<or> c = CHR 0x5C then [CHR 0x5C, c]
      else if c = CHR 0x0A then [CHR 0x5C, CHR ''n'']
      else if c = CHR 0x0D then [CHR 0x5C, CHR ''r'']
      else if c = CHR 0x09 then [CHR 0x5C, CHR ''t'']
      else if (of_char c :: nat) < 32 \<or> (of_char c :: nat) = 127
        then [CHR 0x5C, CHR ''x'', hex_digit ((of_char c :: nat) div 16), hex_digit (of_char c)]
      else [c])"

definition py_repr :: "string \<Rightarrow> string" where
  "py_repr s =
     (let q = (if CHR 0x27 \<in> set s \<and> CHR 0x22 \<notin> set s then CHR 0x22 else CHR 0x27)
      in [q] @ concat (map (repr_char q) s) @ [q])"

text \<open>\<open>sep.join(xs)\<close>.\<close>

fun join :: "string \<Rightarrow> string list \<Rightarrow> string" where
  "join sep [] = []"
| "join sep [x] = x"
| "join sep (x # y # ys) = x @ sep @ join sep (y # ys)"

text \<open>
  \<open>arg.strip()\<close> is non-empty exactly when \<open>arg\<close> holds a character that is not white
  space (the ASCII white space of \<open>str.isspace\<close>).
\<close>

definition is_space :: "char \<Rightarrow> bool" where
  "is_space c = ((of_char c :: nat) \<in> {9, 10, 11, 12, 13, 28, 29, 30, 31, 32})"

definition strip_nonempty :: "string \<Rightarrow> bool" where
  "strip_nonempty arg = list_ex (\<lambda>c. \<not> is_space c) arg"

text \<open>
  \<open>d.update(other)\<close> for two dictionaries: the entries of \<open>other\<close> are stored one by
  one in its order; a key already present keeps its place and takes the new value, a new
  key goes to the end.
\<close>

definition dict_update :: "('k \<times> 'v) list \<Rightarrow> ('k \<times> 'v) list \<Rightarrow> ('k \<times> 'v) list" where
  "dict_update d other = fold (\<lambda>(k, v). AList.update k v) other d"

text \<open>
  \<open>key in x\<close> and \<open>x[key]\<close> for a string key and an arbitrary value \<open>x\<close>: a parsed
  document is not checked before the code indexes it.
\<close>

fun py_contains :: "pyval \<Rightarrow> string \<Rightarrow> error + bool" where
  "py_contains (PDict d) key = Inr (key \<in> set (map fst d))"
| "py_contains (PList xs) key = Inr (PStr key \<in> set xs)"
| "py_contains (PStr s) key = Inr (contains_str s key)"
| "py_contains v key = Inl (TypeError ''argument is not iterable'')"

fun py_getitem :: "pyval \<Rightarrow> string \<Rightarrow> error + pyval" where
  "py_getitem (PDict d) key = (case map_of d key of Some v \<Rightarrow> Inr v | None \<Rightarrow> Inl (KeyError key))"
| "py_getitem (PList xs) key = Inl (TypeError ''list indices must be integers or slices, not str'')"
| "py_getitem (PStr s) key = Inl (TypeError ''string indices must be integers'')"
| "py_getitem v key = Inl (TypeError ''object is not subscriptable'')"

section \<open>options.py: the options schema\<close>

text \<open>
  A type annotation of a field. \<open>TStr\<close>, \<open>TInt\<close>, \<open>TBool\<close>, \<open>TDict\<close> and \<open>TList\<close> are
  the plain classes, \<open>TAny\<close> and \<open>TType\<close> are \<open>typing.Any\<close> and \<open>typing.Type\<close>, the
  others are the subscripted generics of \<open>typing\<close> that the sources use.
\<close>

datatype ty =
    TStr | TInt | TBool | TDict | TList | TAny | TType
  | TDictOf ty ty
  | TMappingOf ty ty
  | TMutableMappingOf ty ty
  | TListOf ty
  | TSequenceOf ty
  | TUnion "ty list"

datatype origin = ODict | OMapping | OMutableMapping | OList | OSequence | OUnion | OType | ONone

fun get_origin :: "ty \<Rightarrow> origin" where
  "get_origin (TDictOf k v) = ODict"
| "get_origin (TMappingOf k v) = OMapping"
| "get_origin (TMutableMappingOf k v) = OMutableMapping"
| "get_origin (TListOf t) = OList"
| "get_origin (TSequenceOf t) = OSequence"
| "get_origin (TUnion ts) = OUnion"
| "get_origin TType = OType"
| "get_origin t = ONone"

fun get_args :: "ty \<Rightarrow> ty list" where
  "get_args (TDictOf k v) = [k, v]"
| "get_args (TMappingOf k v) = [k, v]"
| "get_args (TMutableMappingOf k v) = [k, v]"
| "get_args (TListOf t) = [t]"
| "get_args (TSequenceOf t) = [t]"
| "get_args (TUnion ts) = ts"
| "get_args t = []"

text \<open>
  Calling a type with no argument. The plain classes build their empty value; the
  aliases of \<open>typing\<close> and its special forms refuse to be instantiated.
\<close>

fun construct :: "ty \<Rightarrow> error + pyval" where
  "construct TStr = Inr (PStr [])"
| "construct TInt = Inr (PInt 0)"
| "construct TBool = Inr (PBool False)"
| "construct TDict = Inr (PDict [])"
| "construct TList = Inr (PList [])"
| "construct t = Inl (TypeError ''type cannot be instantiated'')"

text \<open>
  \<open>isinstance(value, cls)\<close> for one class (\<open>bool\<close> is a subclass of \<open>int\<close>; a
  subscripted generic and \<open>typing.Any\<close> raise), and for a tuple of classes, tried from
  the left until one holds or raises.
\<close>

fun isinstance1 :: "pyval \<Rightarrow> ty \<Rightarrow> error + bool" where
  "isinstance1 v TStr = Inr (case v of PStr s \<Rightarrow> True | _ \<Rightarrow> False)"
| "isinstance1 v TInt = Inr (case v of PInt i \<Rightarrow> True | PBool b \<Rightarrow> True | _ \<Rightarrow> False)"
| "isinstance1 v TBool = Inr (case v of PBool b \<Rightarrow> True | _ \<Rightarrow> False)"
| "isinstance1 v TDict = Inr (case v of PDict d \<Rightarrow> True | _ \<Rightarrow> False)"
| "isinstance1 v TList = Inr (case v of PList xs \<Rightarrow> True | _ \<Rightarrow> False)"
| "isinstance1 v TType = Inr False"
| "isinstance1 v TAny = Inl (TypeError ''typing.Any cannot be used with isinstance()'')"
| "isinstance1 v t =
     Inl (TypeError ''Subscripted generics cannot be used with class and instance checks'')"

fun isinstance_tuple :: "pyval \<Rightarrow> ty list \<Rightarrow> error + bool" where
  "isinstance_tuple v [] = Inr False"
| "isinstance_tuple v (t # ts) =
     (case isinstance1 v t of
        Inl e \<Rightarrow> Inl e
      | Inr True \<Rightarrow> Inr True
      | Inr False \<Rightarrow> isinstance_tuple v ts)"

datatype type_check = Single ty | Tuple "ty list"

fun isinstance :: "pyval \<Rightarrow> type_check \<Rightarrow> error + bool" where
  "isinstance v (Single t) = isinstance1 v t"
| "isinstance v (Tuple ts) = isinstance_tuple v ts"

text \<open>
  A class: its name, the annotations of its own body (\<open>__annotations__\<close>), the other
  attributes of its body (literal defaults, methods) and its direct bases
  (\<open>__bases__\<close>). \<open>Object\<close> is Python's \<open>object\<close>, which has no \<open>__annotations__\<close>.
  As from Python 3.10, \<open>__annotations__\<close> of a class is the dictionary of its own body,
  empty when the body annotates nothing.
\<close>

datatype pyclass =
    Object
  | Class (cls_name: string) (cls_annotations: "(string \<times> ty) list")
      (cls_attrs: "(string \<times> pyval) list") (cls_bases: "pyclass list")

fun class_name :: "pyclass \<Rightarrow> string" where
  "class_name Object = ''object''"
| "class_name (Class name ann attrs bs) = name"

fun annotations_of :: "pyclass \<Rightarrow> error + (string \<times> ty) list" where
  "annotations_of Object =
     Inl (AttributeError ''type object object has no attribute __annotations__'')"
| "annotations_of (Class name ann attrs bs) = Inr ann"

fun bases_of :: "pyclass \<Rightarrow> pyclass list" where
  "bases_of Object = []"
| "bases_of (Class name ann attrs bs) = bs"

definition object_attrs :: "string list" where
  "object_attrs =
     [''__class__'', ''__delattr__'', ''__dir__'', ''__doc__'', ''__eq__'', ''__format__'',
      ''__ge__'', ''__getattribute__'', ''__gt__'', ''__hash__'', ''__init__'',
      ''__init_subclass__'', ''__le__'', ''__lt__'', ''__ne__'', ''__new__'', ''__reduce__'',
      ''__reduce_ex__'', ''__repr__'', ''__setattr__'', ''__sizeof__'', ''__str__'',
      ''__subclasshook__'']"

fun first_some :: "'a option list \<Rightarrow> 'a option" where
  "first_some [] = None"
| "first_some (None # xs) = first_some xs"
| "first_some (Some x # xs) = Some x"

text \<open>
  Attribute lookup on a class: its own body first, then its bases from the left, depth
  first (the method resolution order of every hierarchy without a diamond).
\<close>

fun class_getattr :: "pyclass \<Rightarrow> string \<Rightarrow> pyval option" where
  "class_getattr Object key =
     (if key \<in> set object_attrs then Some (PObj ''attribute of object'') else None)"
| "class_getattr (Class name ann attrs bs) key =
     (case map_of attrs key of
        Some v \<Rightarrow> Some v
      | None \<Rightarrow> first_some (map (\<lambda>b. class_getattr b key) bs))"

text \<open>The class \<open>PoeOptions\<close> itself: one private annotation and its methods.\<close>

definition PoeOptions :: pyclass where
  "PoeOptions =
     Class ''PoeOptions''
       [(''_PoeOptions__annotations'', TDictOf TStr TType)]
       [(''__module__'', PStr ''poethepoet.options''),
        (''__annotations__'', PObj ''dict''),
        (''__init__'', PObj ''method''),
        (''get'', PObj ''method''),
        (''is_set'', PObj ''method''),
        (''update'', PObj ''method''),
        (''type_of'', PObj ''method''),
        (''get_fields'', PObj ''method''),
        (''__dict__'', PObj ''dict''),
        (''__weakref__'', PNone),
        (''__doc__'', PNone)]
       [Object]"

definition kwlist :: "string list" where
  "kwlist =
     [''False'', ''None'', ''True'', ''and'', ''as'', ''assert'', ''async'', ''await'',
      ''break'', ''class'', ''continue'', ''def'', ''del'', ''elif'', ''else'', ''except'',
      ''finally'', ''for'', ''from'', ''global'', ''if'', ''import'', ''in'', ''is'',
      ''lambda'', ''nonlocal'', ''not'', ''or'', ''pass'', ''raise'', ''return'', ''try'',
      ''while'', ''with'', ''yield'']"

definition iskeyword :: "string \<Rightarrow> bool" where
  "iskeyword key = (key \<in> set kwlist)"

definition attr_name :: "string \<Rightarrow> string" where
  "attr_name key = (if iskeyword key then key @ ''_'' else key)"

text \<open>
  \<open>PoeOptions.get_fields\<close>. The guard \<open>hasattr(cls, "__annotations")\<close> asks for the
  literal name, while the assignment \<open>cls.__annotations = ...\<close> inside the class body
  stores under the mangled name \<open>_PoeOptions__annotations\<close>: the guard never holds, and
  every call computes the table again from the direct bases and the class.
\<close>

fun update_from_bases :: "(string \<times> ty) list \<Rightarrow> pyclass list \<Rightarrow> error + (string \<times> ty) list" where
  "update_from_bases annotations [] = Inr annotations"
| "update_from_bases annotations (base_cls # rest) =
     (case annotations_of base_cls of
        Inl e \<Rightarrow> Inl e
      | Inr a \<Rightarrow> update_from_bases (dict_update annotations a) rest)"

definition get_fields :: "pyclass \<Rightarrow> error + (string \<times> ty) list" where
  "get_fields cls =
     (case update_from_bases [] (bases_of cls) of
        Inl e \<Rightarrow> Inl e
      | Inr annotations \<Rightarrow>
          (case annotations_of cls of
             Inl e \<Rightarrow> Inl e
           | Inr own \<Rightarrow>
               Inr (filter (\<lambda>(key, t). \<not> startswith key ''_'')
                      (dict_update annotations own))))"

text \<open>
  \<open>PoeOptions.type_of\<close>: a union gives the tuple of its members, a mapping-like or
  sequence-like generic gives \<open>dict\<close> or \<open>list\<close>, anything else is returned as declared.
\<close>

definition type_of :: "pyclass \<Rightarrow> string \<Rightarrow> error + type_check" where
  "type_of cls key0 =
     (case get_fields cls of
        Inl e \<Rightarrow> Inl e
      | Inr annotations \<Rightarrow>
          (let key = attr_name key0 in
           case map_of annotations key of
             None \<Rightarrow> Inl (KeyError key)
           | Some result \<Rightarrow>
               if get_origin result = OUnion then Inr (Tuple (get_args result))
               else if get_origin result \<in> {ODict, OMapping, OMutableMapping} then Inr (Single TDict)
               else if get_origin result \<in> {OList, OSequence} then Inr (Single TList)
               else Inr (Single result)))"

text \<open>
  An instance: its class and the attributes \<open>__init__\<close> has set on it. \<open>__init__\<close> goes
  through the declared fields in order and binds those the given mapping holds.
\<close>

record options_obj =
  options_class :: pyclass
  bound :: "(string \<times> pyval) list"

fun bind_fields :: "pyval \<Rightarrow> string list \<Rightarrow> (string \<times> pyval) list \<Rightarrow> error + (string \<times> pyval) list" where
  "bind_fields options_dict [] acc = Inr acc"
| "bind_fields options_dict (key # keys) acc =
     (case py_contains options_dict key of
        Inl e \<Rightarrow> Inl e
      | Inr False \<Rightarrow> bind_fields options_dict keys acc
      | Inr True \<Rightarrow>
          (case py_getitem options_dict key of
             Inl e \<Rightarrow> Inl e
           | Inr v \<Rightarrow> bind_fields options_dict keys (AList.update key v acc)))"

definition PoeOptions_init :: "pyclass \<Rightarrow> pyval \<Rightarrow> error + options_obj" where
  "PoeOptions_init cls options_dict =
     (case get_fields cls of
        Inl e \<Rightarrow> Inl e
      | Inr flds \<Rightarrow>
          (case bind_fields options_dict (map fst flds) [] of
             Inl e \<Rightarrow> Inl e
           | Inr attrs \<Rightarrow> Inr \<lparr>options_class = cls, bound = attrs\<rparr>))"

text \<open>
  \<open>getattr(self, key, default)\<close>: the instance's own attributes, then the class and its
  bases; \<open>__init__\<close> has called \<open>get_fields\<close>, which left the field table on the class
  under the mangled name. \<open>None\<close> is the sentinel \<open>NoValue\<close>.
\<close>

definition getattr :: "options_obj \<Rightarrow> string \<Rightarrow> pyval option \<Rightarrow> pyval option" where
  "getattr self key dflt =
     (case map_of (bound self) key of
        Some v \<Rightarrow> Some v
      | None \<Rightarrow>
          (case class_getattr (options_class self) key of
             Some v \<Rightarrow> Some v
           | None \<Rightarrow> if key = ''_PoeOptions__annotations'' then Some (PObj ''dict'') else dflt))"

definition hasattr :: "options_obj \<Rightarrow> string \<Rightarrow> bool" where
  "hasattr self key = (getattr self key None \<noteq> None)"

definition get :: "options_obj \<Rightarrow> string \<Rightarrow> pyval option \<Rightarrow> error + pyval" where
  "get self key0 dflt =
     (let key = attr_name key0 in
      case (if hasattr self key then Inr True
            else (case get_fields (options_class self) of
                    Inl e \<Rightarrow> Inl e
                  | Inr flds \<Rightarrow> Inr (key \<in> set (map fst flds)))) of
        Inl e \<Rightarrow> Inl e
      | Inr False \<Rightarrow>
          Inl (KeyError (class_name (options_class self) @ '' has no such attribute '' @ py_repr key))
      | Inr True \<Rightarrow>
          (case getattr self key dflt of
             Some result \<Rightarrow> Inr result
           | None \<Rightarrow>
               (case type_of (options_class self) key of
                  Inl e \<Rightarrow> Inl e
                | Inr (Tuple []) \<Rightarrow> Inl (IndexError ''tuple index out of range'')
                | Inr (Tuple (t # ts)) \<Rightarrow> construct t
                | Inr (Single t) \<Rightarrow> construct t)))"

definition is_set :: "options_obj \<Rightarrow> string \<Rightarrow> bool" where
  "is_set self key = (getattr self key None \<noteq> None)"


section \<open>config.py: partitions, merge, validation and includes\<close>

text \<open>\<open>repr\<close> and \<open>str\<close> of a value, for the messages that print one.\<close>

fun show_nat :: "nat \<Rightarrow> string" where
  "show_nat n =
     (if n < 10 then [''0123456789'' ! n]
      else show_nat (n div 10) @ [''0123456789'' ! (n mod 10)])"

definition show_int :: "int \<Rightarrow> string" where
  "show_int i = (if i < 0 then CHR ''-'' # show_nat (nat (- i)) else show_nat (nat i))"

fun py_repr_val :: "pyval \<Rightarrow> string" where
  "py_repr_val PNone = ''None''"
| "py_repr_val (PBool b) = (if b then ''True'' else ''False'')"
| "py_repr_val (PInt i) = show_int i"
| "py_repr_val (PStr s) = py_repr s"
| "py_repr_val (PList xs) = ''['' @ join '', '' (map py_repr_val xs) @ '']''"
| "py_repr_val (PDict d) =
     ''{'' @ join '', '' (map (\<lambda>(k, v). py_repr k @ '': '' @ py_repr_val v) d) @ ''}''"
| "py_repr_val (PObj d) = d"

definition py_str :: "pyval \<Rightarrow> string" where
  "py_str v = (case v of PStr s \<Rightarrow> s | _ \<Rightarrow> py_repr_val v)"

text \<open>
  Iterating a value (a dictionary gives its keys, a string its characters), and which
  values can be a dictionary key or a set element.
\<close>

fun py_iter :: "pyval \<Rightarrow> error + pyval list" where
  "py_iter (PDict d) = Inr (map (\<lambda>(k, v). PStr k) d)"
| "py_iter (PList xs) = Inr xs"
| "py_iter (PStr s) = Inr (map (\<lambda>c. PStr [c]) s)"
| "py_iter v = Inl (TypeError ''object is not iterable'')"

fun hashable :: "pyval \<Rightarrow> bool" where
  "hashable (PList xs) = False"
| "hashable (PDict d) = False"
| "hashable v = True"

text \<open>
  A partition of the configuration (\<open>ConfigPartition\<close>): the typed options, the whole
  parsed document, its poe section and the file it came from. The constructor receives
  \<open>cwd\<close> and does not keep it.
\<close>

record config_partition =
  options :: options_obj
  full_config :: pyval
  poe_options :: pyval
  path :: "string option"

definition ConfigPartition_init ::
  "pyclass \<Rightarrow> pyval \<Rightarrow> string \<Rightarrow> string option \<Rightarrow> error + config_partition" where
  "ConfigPartition_init ConfigOptions doc cwd file =
     (case py_contains doc ''tool'' of
        Inl e \<Rightarrow> Inl e
      | Inr has_tool \<Rightarrow>
          (case (if has_tool
                 then (case py_getitem doc ''tool'' of
                         Inl e \<Rightarrow> Inl e
                       | Inr tool \<Rightarrow> py_getitem tool ''poe'')
                 else py_getitem doc ''tool.poe'') of
             Inl e \<Rightarrow> Inl e
           | Inr section \<Rightarrow>
               (case PoeOptions_init ConfigOptions section of
                  Inl e \<Rightarrow> Inl e
                | Inr opts \<Rightarrow>
                    Inr \<lparr>options = opts, full_config = doc, poe_options = section,
                         path = file\<rparr>)))"

definition ProjectConfig_ConfigOptions :: pyclass where
  "ProjectConfig_ConfigOptions =
     Class ''ConfigOptions''
       [(''default_task_type'', TStr),
        (''default_array_task_type'', TStr),
        (''default_array_item_task_type'', TStr),
        (''env'', TMappingOf TStr TStr),
        (''envfile'', TUnion [TStr, TSequenceOf TStr]),
        (''executor'', TMappingOf TStr TStr),
        (''include'', TUnion [TStr, TSequenceOf TStr, TMappingOf TStr TStr]),
        (''poetry_command'', TStr),
        (''poetry_hooks'', TMappingOf TStr TStr),
        (''shell_interpreter'', TUnion [TStr, TSequenceOf TStr]),
        (''verbosity'', TInt),
        (''tasks'', TMappingOf TStr TAny)]
       [(''__doc__'',
           PStr (CHR 0x0A # ''        Options allowed directly under tool.poe in pyproject.toml''
                 @ CHR 0x0A # ''        '')),
        (''default_task_type'', PStr ''cmd''),
        (''default_array_task_type'', PStr ''sequence''),
        (''default_array_item_task_type'', PStr ''ref''),
        (''shell_interpreter'', PStr ''posix''),
        (''verbosity'', PInt 0)]
       [PoeOptions]"

definition IncludedConfig_ConfigOptions :: pyclass where
  "IncludedConfig_ConfigOptions =
     Class ''ConfigOptions''
       [(''env'', TDictOf TStr TStr),
        (''envfile'', TUnion [TStr, TListOf TStr]),
        (''tasks'', TDictOf TStr TAny)]
       []
       [PoeOptions]"

definition ProjectConfig :: "pyval \<Rightarrow> string \<Rightarrow> string option \<Rightarrow> error + config_partition" where
  "ProjectConfig doc cwd file = ConfigPartition_init ProjectConfig_ConfigOptions doc cwd file"

definition IncludedConfig :: "pyval \<Rightarrow> string \<Rightarrow> string option \<Rightarrow> error + config_partition" where
  "IncludedConfig doc cwd file = ConfigPartition_init IncludedConfig_ConfigOptions doc cwd file"

text \<open>\<open>ConfigPartition.get\<close> and \<open>ConfigPartition.is_option_type_valid\<close>.\<close>

definition partition_get :: "config_partition \<Rightarrow> string \<Rightarrow> pyval option \<Rightarrow> error + pyval" where
  "partition_get self key dflt = get (options self) key dflt"

definition is_option_type_valid :: "config_partition \<Rightarrow> string \<Rightarrow> error + bool" where
  "is_option_type_valid self key =
     (case get (options self) key (Some PNone) of
        Inl e \<Rightarrow> Inl e
      | Inr v \<Rightarrow>
          (case type_of (options_class (options self)) key of
             Inl e \<Rightarrow> Inl e
           | Inr expected_type \<Rightarrow> isinstance v expected_type))"

text \<open>
  \<open>PoeConfig\<close>: the working directory, the root partition, the included partitions in
  the order they were loaded, the name of the config file and the project directory.
\<close>

record poe_config =
  cwd :: string
  project_config :: config_partition
  included_config :: "config_partition list"
  config_name :: string
  project_dir :: "string option"

definition PoeConfig_init :: "string \<Rightarrow> pyval \<Rightarrow> string \<Rightarrow> error + poe_config" where
  "PoeConfig_init dir table cfg_name =
     (case ProjectConfig (PDict [(''tool.poe'', if truthy table then table else PDict [])]) dir None of
        Inl e \<Rightarrow> Inl e
      | Inr p \<Rightarrow>
          Inr \<lparr>cwd = dir, project_config = p, included_config = [], config_name = cfg_name,
               project_dir = Some dir\<rparr>)"

text \<open>
  The property \<open>PoeConfig.tasks\<close>. \<open>result.update(x)\<close> is embedded for a mapping \<open>x\<close>,
  the declared type of the \<open>tasks\<close> option.
\<close>

definition update_with :: "(string \<times> pyval) list \<Rightarrow> pyval \<Rightarrow> error + (string \<times> pyval) list" where
  "update_with result x =
     (case x of
        PDict d \<Rightarrow> Inr (dict_update result d)
      | _ \<Rightarrow> Inl (Unmodelled ''dict.update with an argument that is not a mapping''))"

fun update_from_configs ::
  "(string \<times> pyval) list \<Rightarrow> config_partition list \<Rightarrow> error + (string \<times> pyval) list" where
  "update_from_configs result [] = Inr result"
| "update_from_configs result (config # rest) =
     (case partition_get config ''tasks'' None of
        Inl e \<Rightarrow> Inl e
      | Inr t \<Rightarrow>
          (case update_with result t of
             Inl e \<Rightarrow> Inl e
           | Inr result' \<Rightarrow> update_from_configs result' rest))"

definition tasks :: "poe_config \<Rightarrow> error + (string \<times> pyval) list" where
  "tasks self =
     (case update_from_configs [] (rev (included_config self)) of
        Inl e \<Rightarrow> Inl e
      | Inr result \<Rightarrow>
          (case partition_get (project_config self) ''tasks'' None of
             Inl e \<Rightarrow> Inl e
           | Inr t \<Rightarrow> update_with result t))"

text \<open>
  \<open>PoeConfig._validate_config\<close>, its first two steps; what follows them (executor,
  default task types, env, tasks, shell interpreter, verbosity) calls code outside these
  sources and is the parameter \<open>rest\<close>.

  The message of the first step prints a set, whose order Python leaves open; here it
  is the order of the poe section.

  In the second step, the \<open>raise\<close> statement formats its message with \<open>option_type\<close>, a
  name that is bound nowhere in the function, the module or the builtins: evaluating the
  message raises \<open>NameError\<close> before any \<open>PoeException\<close> is built.
\<close>

definition unsupported_keys :: "pyval \<Rightarrow> (string \<times> ty) list \<Rightarrow> error + pyval list" where
  "unsupported_keys raw_poe_config supported_options =
     (case py_iter raw_poe_config of
        Inl e \<Rightarrow> Inl e
      | Inr ks \<Rightarrow>
          if list_all hashable ks
          then Inr (filter (\<lambda>k. k \<notin> set (map (\<lambda>(n, t). PStr n) supported_options)) (remdups ks))
          else Inl (TypeError ''unhashable type''))"

fun validate_option_types :: "config_partition \<Rightarrow> string list \<Rightarrow> error + unit" where
  "validate_option_types p [] = Inr ()"
| "validate_option_types p (key # keys) =
     (case py_contains (poe_options p) key of
        Inl e \<Rightarrow> Inl e
      | Inr False \<Rightarrow> validate_option_types p keys
      | Inr True \<Rightarrow>
          (case is_option_type_valid p key of
             Inl e \<Rightarrow> Inl e
           | Inr True \<Rightarrow> validate_option_types p keys
           | Inr False \<Rightarrow> Inl (NameError ''name 'option_type' is not defined'')))"

definition validate_config :: "error + unit \<Rightarrow> poe_config \<Rightarrow> error + unit" where
  "validate_config rest self =
     (case get_fields ProjectConfig_ConfigOptions of
        Inl e \<Rightarrow> Inl e
      | Inr supported_options \<Rightarrow>
          (case unsupported_keys (poe_options (project_config self)) supported_options of
             Inl e \<Rightarrow> Inl e
           | Inr (k # ks) \<Rightarrow>
               Inl (PoeException
                     (''Unsupported keys in poe config: {''
                        @ join '', '' (map py_repr_val (k # ks)) @ ''}'') None)
           | Inr [] \<Rightarrow>
               (case validate_option_types (project_config self) (map fst supported_options) of
                  Inl e \<Rightarrow> Inl e
                | Inr u \<Rightarrow> rest)))"

definition validate :: "error + unit \<Rightarrow> poe_config \<Rightarrow> error + unit" where
  "validate rest self = validate_config rest self"

text \<open>
  The file system and the two parsers, as the code meets them: whether a path exists,
  what \<open>Path.resolve\<close> makes of it, what opening it gives, and what \<open>tomli.load\<close> and
  \<open>json.load\<close> make of a file's content.
\<close>

record file_system =
  path_exists :: "string \<Rightarrow> bool"
  path_resolve :: "string \<Rightarrow> string"
  path_open :: "string \<Rightarrow> error + string"
  tomli_load :: "string \<Rightarrow> error + pyval"
  json_load :: "string \<Rightarrow> error + pyval"

definition endswith :: "string \<Rightarrow> string \<Rightarrow> bool" where
  "endswith s e = startswith (rev s) (rev e)"

definition path_name :: "string \<Rightarrow> string" where
  "path_name p = rev (takeWhile (\<lambda>c. c \<noteq> CHR ''/'') (rev p))"

definition path_suffix :: "string \<Rightarrow> string" where
  "path_suffix p =
     (let name = path_name p;
          ext = rev (takeWhile (\<lambda>c. c \<noteq> CHR ''.'') (rev name))
      in if CHR ''.'' \<in> set name \<and> ext \<noteq> [] \<and> length ext + 1 < length name
         then CHR ''.'' # ext else [])"

definition joinpath :: "string \<Rightarrow> string \<Rightarrow> string" where
  "joinpath dir p = (if startswith p ''/'' then p else dir @ ''/'' @ p)"

text \<open>
  \<open>PoeConfig._read_config_file\<close>: a decoding error of either parser and every other
  exception become a \<open>PoeException\<close>.
\<close>

definition read_config_file :: "file_system \<Rightarrow> string \<Rightarrow> error + pyval" where
  "read_config_file fs file =
     (case (case path_open fs file of
              Inl e \<Rightarrow> Inl e
            | Inr content \<Rightarrow>
                if endswith (path_suffix file) ''.json'' then json_load fs content
                else tomli_load fs content) of
        Inr doc \<Rightarrow> Inr doc
      | Inl (TOMLDecodeError m) \<Rightarrow>
          Inl (PoeException (''Couldn't parse toml file at '' @ file) (Some (TOMLDecodeError m)))
      | Inl (JSONDecodeError m) \<Rightarrow>
          Inl (PoeException (''Couldn't parse json file from '' @ file) (Some (JSONDecodeError m)))
      | Inl e \<Rightarrow> Inl (PoeException (''Couldn't open file at '' @ file) None))"



text \<open>
  Second part: each record's path is joined to the project directory and resolved; a
  file that does not exist is passed over; a \<open>PoeException\<close> or \<open>KeyError\<close> from reading
  the file or building the partition is wrapped, any other exception passes through.
\<close>

definition include_path_of :: "file_system \<Rightarrow> poe_config \<Rightarrow> (string \<times> pyval) list \<Rightarrow> error + string" where
  "include_path_of fs self inc =
     (case project_dir self of
        None \<Rightarrow> Inl (AttributeError ''NoneType object has no attribute joinpath'')
      | Some dir \<Rightarrow>
          (case map_of inc ''path'' of
             None \<Rightarrow> Inl (KeyError ''path'')
           | Some (PStr p) \<Rightarrow> Inr (path_resolve fs (joinpath dir p))
           | Some v \<Rightarrow> Inl (TypeError ''expected str, bytes or os.PathLike object'')))"

definition project_dir_str :: "poe_config \<Rightarrow> string" where
  "project_dir_str self = (case project_dir self of Some d \<Rightarrow> d | None \<Rightarrow> cwd self)"

definition include_cwd :: "poe_config \<Rightarrow> (string \<times> pyval) list \<Rightarrow> string" where
  "include_cwd self inc =
     (case map_of inc ''cwd'' of Some v \<Rightarrow> py_str v | None \<Rightarrow> project_dir_str self)"

definition load_included :: "file_system \<Rightarrow> poe_config \<Rightarrow> (string \<times> pyval) list \<Rightarrow> string \<Rightarrow> error + config_partition" where
  "load_included fs self inc include_path =
     (case read_config_file fs include_path of
        Inl e \<Rightarrow> Inl e
      | Inr doc \<Rightarrow> IncludedConfig doc (include_cwd self inc) (Some include_path))"



section \<open>The run state and child tasks\<close>

text \<open>
  What a run reads and changes: the two flags of the \<open>RunContext\<close> (\<open>dry\<close>,
  \<open>multistage\<close>), and in \<open>world\<close> everything else a task can touch (the environment
  object handed down, the captured outputs, the processes it starts). A child task is
  known by its name, its invocation and what its \<open>run\<close> does to the state: it returns an
  exit status or raises.
\<close>

record 'w run_state =
  dry :: bool
  multistage :: bool
  world :: 'w

record 'w task =
  t_name :: string
  t_invocation :: "string list"
  t_run :: "string list \<Rightarrow> 'w run_state \<Rightarrow> (error + int) \<times> 'w run_state"

section \<open>task/sequence.py\<close>

text \<open>
  \<open>SequenceTask.TaskOptions\<close>, over the options class of \<open>PoeTask\<close> (not among these
  sources, a parameter).
\<close>

definition SequenceTask_TaskOptions :: "pyclass \<Rightarrow> pyclass" where
  "SequenceTask_TaskOptions PoeTask_TaskOptions =
     Class ''TaskOptions''
       [(''ignore_fail'', TUnion [TBool, TStr]), (''default_item_type'', TStr)]
       []
       [PoeTask_TaskOptions]"

record 'cs sequence_spec =
  spec_name :: string
  spec_options :: options_obj
  spec_subtasks :: "'cs list"

text \<open>
  \<open>SequenceTask.__init__\<close>. \<open>base_init\<close> is the constructor of \<open>PoeTask\<close> and
  \<open>from_spec\<close> its factory, both outside these sources; \<open>from_spec self task_spec
  array_item\<close> stands for the call with \<open>invocation=(task_spec.name,)\<close> and
  \<open>inheritance=TaskInheritance.from_task(self)\<close>.
\<close>

fun create_subtasks ::
  "('cs \<Rightarrow> pyval \<Rightarrow> error + 't) \<Rightarrow> options_obj \<Rightarrow> 'cs list \<Rightarrow> error + 't list" where
  "create_subtasks from_spec opts [] = Inr []"
| "create_subtasks from_spec opts (task_spec # rest) =
     (case get opts ''default_item_type'' (Some (PBool True)) of
        Inl e \<Rightarrow> Inl e
      | Inr array_item \<Rightarrow>
          (case from_spec task_spec array_item of
             Inl e \<Rightarrow> Inl e
           | Inr t \<Rightarrow>
               (case create_subtasks from_spec opts rest of
                  Inl e \<Rightarrow> Inl e
                | Inr ts \<Rightarrow> Inr (t # ts))))"

definition in_False_None :: "pyval \<Rightarrow> bool" where
  "in_False_None v = (v = PBool False \<or> v = PInt 0 \<or> v = PNone)"

definition SequenceTask_init ::
  "('cs sequence_spec \<Rightarrow> string list \<Rightarrow> bool \<Rightarrow> 'inh \<Rightarrow> error + 'b) \<Rightarrow>
   ('b \<Rightarrow> 'cs \<Rightarrow> pyval \<Rightarrow> error + 't) \<Rightarrow>
   'cs sequence_spec \<Rightarrow> string list \<Rightarrow> pyval \<Rightarrow> 'inh \<Rightarrow> error + ('b \<times> 't list)" where
  "SequenceTask_init base_init from_spec spec invocation capture_stdout inheritance =
     (if \<not> in_False_None capture_stdout then Inl AssertionError
      else
        (case base_init spec invocation False inheritance of
           Inl e \<Rightarrow> Inl e
         | Inr self \<Rightarrow>
             (case create_subtasks (from_spec self) (spec_options spec) (spec_subtasks spec) of
                Inl e \<Rightarrow> Inl e
              | Inr ts \<Rightarrow> Inr (self, ts))))"

text \<open>
  A sequence task as \<open>_handle_run\<close> reads it: its name, the options of its spec, its
  subtasks and \<open>get_named_arg_values\<close>. \<open>env_update\<close> is \<open>env.update\<close> of the
  environment object, which lives in the world.
\<close>

record 'w sequence_task =
  seq_name :: string
  seq_options :: options_obj
  subtasks :: "'w task list"
  seq_named_arg_values :: "'w \<Rightarrow> (string \<times> string) list"

fun run_subtasks ::
  "pyval \<Rightarrow> 'w task list \<Rightarrow> string list \<Rightarrow> 'w run_state \<Rightarrow> (error + string list) \<times> 'w run_state" where
  "run_subtasks ignore_fail [] non_zero_subtasks s = (Inr non_zero_subtasks, s)"
| "run_subtasks ignore_fail (subtask # rest) non_zero_subtasks s =
     (case t_run subtask [] s of
        (Inl e, s') \<Rightarrow> (Inl e, s')
      | (Inr task_result, s') \<Rightarrow>
          if task_result \<noteq> 0 \<and> \<not> truthy ignore_fail
          then (Inl (ExecutionError
                      (''Sequence aborted after failed subtask '' @ py_repr (t_name subtask))),
                s')
          else run_subtasks ignore_fail rest
                 (if task_result \<noteq> 0 then non_zero_subtasks @ [t_name subtask]
                  else non_zero_subtasks) s')"

definition SequenceTask_handle_run ::
  "((string \<times> string) list \<Rightarrow> 'w \<Rightarrow> 'w) \<Rightarrow> 'w sequence_task \<Rightarrow> string list \<Rightarrow> 'w run_state \<Rightarrow>
   (error + int) \<times> 'w run_state" where
  "SequenceTask_handle_run env_update self extra_args s0 =
     (let named_arg_values = seq_named_arg_values self (world s0);
          s1 = s0\<lparr>world := env_update named_arg_values (world s0)\<rparr>
      in if named_arg_values = [] \<and> list_ex strip_nonempty extra_args
         then (Inl (PoeException
                     (''Sequence task '' @ py_repr (seq_name self) @ '' does not accept arguments'')
                     None), s1)
         else
           (let s2 = (if length (subtasks self) > 1 then s1\<lparr>multistage := True\<rparr> else s1)
            in case get (seq_options self) ''ignore_fail'' None of
                 Inl e \<Rightarrow> (Inl e, s2)
               | Inr ignore_fail \<Rightarrow>
                   (case run_subtasks ignore_fail (subtasks self) [] s2 of
                      (Inl e, s3) \<Rightarrow> (Inl e, s3)
                    | (Inr non_zero_subtasks, s3) \<Rightarrow>
                        if non_zero_subtasks \<noteq> [] \<and> ignore_fail = PStr ''return_non_zero''
                        then (Inl (ExecutionError
                                    (''Subtasks '' @ join '', '' non_zero_subtasks
                                       @ '' returned non-zero exit status'')), s3)
                        else (Inr 0, s3))))"

text \<open>
  The two readings of the claim about a sequence: running every task of a list in
  order, collecting name and exit status, and the names of those that failed.
\<close>

fun run_in_order :: "'w task list \<Rightarrow> 'w run_state \<Rightarrow> (error + (string \<times> int) list) \<times> 'w run_state" where
  "run_in_order [] s = (Inr [], s)"
| "run_in_order (t # ts) s =
     (case t_run t [] s of
        (Inl e, s') \<Rightarrow> (Inl e, s')
      | (Inr r, s') \<Rightarrow>
          (case run_in_order ts s' of
             (Inl e, s'') \<Rightarrow> (Inl e, s'')
           | (Inr rs, s'') \<Rightarrow> (Inr ((t_name t, r) # rs), s'')))"

definition failed_names :: "(string \<times> int) list \<Rightarrow> string list" where
  "failed_names rs = map fst (filter (\<lambda>(n, r). r \<noteq> 0) rs)"

section \<open>task/switch.py\<close>

definition DEFAULT_CASE :: string where
  "DEFAULT_CASE = ''__default__''"

definition SwitchTask_TaskOptions :: "pyclass \<Rightarrow> pyclass" where
  "SwitchTask_TaskOptions PoeTask_TaskOptions =
     Class ''TaskOptions''
       [(''control'', TUnion [TStr, TDict]), (''default'', TStr)]
       []
       [PoeTask_TaskOptions]"

record 'cs switch_spec =
  sw_spec_name :: string
  sw_spec_options :: options_obj
  control_spec :: "'cs"
  case_specs :: "(pyval list \<times> 'cs) list"

text \<open>
  \<open>SwitchTask.__init__\<close>. Outside these sources and parameters here: the constructor of
  \<open>PoeTask\<close> (\<open>base_init\<close>), its factory (\<open>from_spec self spec invocation
  capture_stdout\<close>), the attribute \<open>control\<close> that the constructor reads from the spec
  (the spec class of this file declares \<open>control_spec\<close>) and the attribute \<open>options\<close> of
  the task.

  The body of the loop over the cases starts with \<open>task_invocation = (name,)\<close>; no
  \<open>name\<close> is bound in the function, the module or the builtins, so the first case
  raises \<open>NameError\<close>.
\<close>

fun register_case :: "pyval list \<Rightarrow> 't \<Rightarrow> (pyval \<times> 't) list \<Rightarrow> error + (pyval \<times> 't) list" where
  "register_case [] case_task switch_tasks = Inr switch_tasks"
| "register_case (case_key # keys) case_task switch_tasks =
     (if hashable case_key
      then register_case keys case_task (AList.update case_key case_task switch_tasks)
      else Inl (TypeError ''unhashable type''))"

fun create_case_tasks ::
  "('cs \<Rightarrow> string list \<Rightarrow> pyval \<Rightarrow> error + 't) \<Rightarrow> error + options_obj \<Rightarrow> options_obj \<Rightarrow>
   string list \<Rightarrow> pyval \<Rightarrow> (pyval list \<times> 'cs) list \<Rightarrow> (pyval \<times> 't) list \<Rightarrow>
   error + (pyval \<times> 't) list" where
  "create_case_tasks from_spec self_options opts invocation capture_stdout [] switch_tasks =
     Inr switch_tasks"
| "create_case_tasks from_spec self_options opts invocation capture_stdout
     ((case_keys, case_spec) # rest) switch_tasks =
     (case (Inl (NameError ''name 'name' is not defined'') :: error + string) of
        Inl e \<Rightarrow> Inl e
      | Inr name \<Rightarrow>
          (case get opts ''args'' None of
             Inl e \<Rightarrow> Inl e
           | Inr args \<Rightarrow>
               (case self_options of
                  Inl e \<Rightarrow> Inl e
                | Inr task_options \<Rightarrow>
                    (case get task_options ''capture_stdout'' (Some capture_stdout) of
                       Inl e \<Rightarrow> Inl e
                     | Inr capture \<Rightarrow>
                         (case from_spec case_spec
                                 (if truthy args then name # drop 1 invocation else [name])
                                 capture of
                            Inl e \<Rightarrow> Inl e
                          | Inr case_task \<Rightarrow>
                              (case register_case case_keys case_task switch_tasks of
                                 Inl e \<Rightarrow> Inl e
                               | Inr switch_tasks' \<Rightarrow>
                                   create_case_tasks from_spec self_options opts invocation
                                     capture_stdout rest switch_tasks'))))))"

definition SwitchTask_init ::
  "('cs switch_spec \<Rightarrow> string list \<Rightarrow> bool \<Rightarrow> 'inh \<Rightarrow> error + 'b) \<Rightarrow>
   ('b \<Rightarrow> 'cs \<Rightarrow> string list \<Rightarrow> pyval \<Rightarrow> error + 't) \<Rightarrow>
   ('cs switch_spec \<Rightarrow> error + 'cs) \<Rightarrow> ('b \<Rightarrow> error + options_obj) \<Rightarrow>
   'cs switch_spec \<Rightarrow> string list \<Rightarrow> pyval \<Rightarrow> 'inh \<Rightarrow>
   error + ('b \<times> 't \<times> (pyval \<times> 't) list)" where
  "SwitchTask_init base_init from_spec spec_control self_options spec invocation capture_stdout
     inheritance =
     (case base_init spec invocation False inheritance of
        Inl e \<Rightarrow> Inl e
      | Inr self \<Rightarrow>
          (case get (sw_spec_options spec) ''args'' None of
             Inl e \<Rightarrow> Inl e
           | Inr args \<Rightarrow>
               (case spec_control spec of
                  Inl e \<Rightarrow> Inl e
                | Inr control \<Rightarrow>
                    (case from_spec self control
                            (if truthy args then sw_spec_name spec # drop 1 invocation
                             else [sw_spec_name spec])
                            (PBool True) of
                       Inl e \<Rightarrow> Inl e
                     | Inr control_task \<Rightarrow>
                         (case create_case_tasks (from_spec self) (self_options self)
                                 (sw_spec_options spec) invocation capture_stdout
                                 (case_specs spec) [] of
                            Inl e \<Rightarrow> Inl e
                          | Inr switch_tasks \<Rightarrow> Inr (self, control_task, switch_tasks))))))"

text \<open>
  A switch task as \<open>_handle_run\<close> reads it. \<open>get_task_output\<close> is the method of the
  \<open>RunContext\<close> that returns what an invocation printed, and \<open>print_action\<close> the report
  to the user interface; both are outside these sources.
\<close>

record 'w switch_task =
  sw_name :: string
  sw_options :: options_obj
  control_task :: "'w task"
  switch_tasks :: "(pyval \<times> 'w task) list"
  sw_named_arg_values :: "'w \<Rightarrow> (string \<times> string) list"

definition SwitchTask_handle_run ::
  "((string \<times> string) list \<Rightarrow> 'w \<Rightarrow> 'w) \<Rightarrow> ('w run_state \<Rightarrow> string list \<Rightarrow> error + string) \<Rightarrow>
   ('w run_state \<Rightarrow> 'w run_state) \<Rightarrow> 'w switch_task \<Rightarrow> string list \<Rightarrow> 'w run_state \<Rightarrow>
   (error + int) \<times> 'w run_state" where
  "SwitchTask_handle_run env_update get_task_output print_action self extra_args s0 =
     (let named_arg_values = sw_named_arg_values self (world s0);
          s1 = s0\<lparr>world := env_update named_arg_values (world s0)\<rparr>
      in if named_arg_values = [] \<and> list_ex strip_nonempty extra_args
         then (Inl (PoeException
                     (''Switch task '' @ py_repr (sw_name self) @ '' does not accept arguments'')
                     None), s1)
         else
           (let s2 = s1\<lparr>multistage := True\<rparr>
            in case get (sw_options self) ''args'' None of
                 Inl e \<Rightarrow> (Inl e, s2)
               | Inr args \<Rightarrow>
                   (case t_run (control_task self) (if truthy args then extra_args else []) s2 of
                      (Inl e, s3) \<Rightarrow> (Inl e, s3)
                    | (Inr task_result, s3) \<Rightarrow>
                        if task_result \<noteq> 0
                        then (Inl (ExecutionError
                                    (''Switch task '' @ py_repr (sw_name self)
                                       @ '' aborted after failed control task'')), s3)
                        else if dry s3 then (Inr 0, print_action s3)
                        else
                          (case get_task_output s3 (t_invocation (control_task self)) of
                             Inl e \<Rightarrow> (Inl e, s3)
                           | Inr control_task_output \<Rightarrow>
                               (case (case map_of (switch_tasks self) (PStr control_task_output) of
                                        Some t \<Rightarrow> Some t
                                      | None \<Rightarrow> map_of (switch_tasks self) (PStr DEFAULT_CASE)) of
                                  None \<Rightarrow>
                                    (case get (sw_options self) ''default'' (Some (PStr ''fail'')) of
                                       Inl e \<Rightarrow> (Inl e, s3)
                                     | Inr d \<Rightarrow>
                                         if d = PStr ''pass'' then (Inr 0, s3)
                                         else (Inl (ExecutionError
                                                     (''Control value '' @ py_repr control_task_output
                                                        @ '' did not match any cases in switch task ''
                                                        @ py_repr (sw_name self) @ ''.'')), s3))
                                | Some case_task \<Rightarrow> t_run case_task extra_args s3)))))"

text \<open>
  \<open>SwitchTask.get_case_keys\<close>. A key is the object \<open>DEFAULT_CASE\<close> itself when the
  definition has no \<open>case\<close>, and a value of the definition otherwise: the validation tells
  them apart with \<open>is\<close>, while the dictionary of counts compares keys with \<open>==\<close>, for which
  \<open>True\<close> and \<open>False\<close> are \<open>1\<close> and \<open>0\<close>.
\<close>

datatype case_key = Sentinel | Given pyval

definition key_value :: "case_key \<Rightarrow> pyval" where
  "key_value k = (case k of Sentinel \<Rightarrow> PStr DEFAULT_CASE | Given v \<Rightarrow> v)"

definition key_norm :: "pyval \<Rightarrow> pyval" where
  "key_norm v = (case v of PBool b \<Rightarrow> PInt (if b then 1 else 0) | _ \<Rightarrow> v)"

definition same_key :: "case_key \<Rightarrow> case_key \<Rightarrow> bool" where
  "same_key a b = (key_norm (key_value a) = key_norm (key_value b))"

definition get_case_keys :: "(string \<times> pyval) list \<Rightarrow> case_key list" where
  "get_case_keys task_def =
     (case map_of task_def ''case'' of
        None \<Rightarrow> [Sentinel]
      | Some (PList xs) \<Rightarrow> map Given xs
      | Some v \<Rightarrow> [Given v])"

text \<open>
  \<open>cases[case_key] += 1\<close> on the \<open>defaultdict(int)\<close>: the first key that compares equal
  keeps its place and its own object; a new key goes to the end with count one.
\<close>

fun increment :: "case_key \<Rightarrow> (case_key \<times> nat) list \<Rightarrow> (case_key \<times> nat) list" where
  "increment k [] = [(k, 1)]"
| "increment k ((k', n) # rest) =
     (if same_key k k' then (k', n + 1) # rest else (k', n) # increment k rest)"

fun count_case_keys :: "case_key list \<Rightarrow> (case_key \<times> nat) list \<Rightarrow> error + (case_key \<times> nat) list" where
  "count_case_keys [] cases = Inr cases"
| "count_case_keys (k # ks) cases =
     (if hashable (key_value k) then count_case_keys ks (increment k cases)
      else Inl (TypeError ''unhashable type''))"

definition invalid_option_issue :: "string \<Rightarrow> (string \<times> pyval) list \<Rightarrow> string option" where
  "invalid_option_issue task_name switch_task =
     (case filter (\<lambda>invalid_option. invalid_option \<in> set (map fst switch_task)) [''args'', ''deps''] of
        [] \<Rightarrow> None
      | invalid_option # others \<Rightarrow>
          Some (case map_of switch_task ''case'' of
                  None \<Rightarrow>
                    ''Default case of switch task '' @ py_repr task_name
                      @ '' includes invalid option '' @ py_repr invalid_option
                | Some case_key \<Rightarrow>
                    ''Case '' @ py_repr_val case_key @ '' switch task '' @ py_repr task_name
                      @ '' include invalid option '' @ py_repr invalid_option))"

definition case_label :: "(string \<times> pyval) list \<Rightarrow> string" where
  "case_label switch_task =
     (case map_of switch_task ''case'' of None \<Rightarrow> DEFAULT_CASE | Some v \<Rightarrow> py_str v)"

text \<open>
  The loop over the cases of \<open>_validate_task_def\<close>. It ends with an issue (\<open>Inl\<close>) or
  with the counts (\<open>Inr\<close>). \<open>validate_def name task_def extra_options\<close> is
  \<open>PoeTask.validate_def\<close> with \<open>anonymous=True\<close>, outside these sources.
\<close>

fun check_cases ::
  "(string \<Rightarrow> pyval \<Rightarrow> string list \<Rightarrow> string option) \<Rightarrow> string \<Rightarrow> pyval list \<Rightarrow>
   (case_key \<times> nat) list \<Rightarrow> error + (string + (case_key \<times> nat) list)" where
  "check_cases validate_def task_name [] cases = Inr (Inr cases)"
| "check_cases validate_def task_name (item # rest) cases =
     (case item of
        PDict switch_task \<Rightarrow>
          (case count_case_keys (get_case_keys switch_task) cases of
             Inl e \<Rightarrow> Inl e
           | Inr cases' \<Rightarrow>
               (case invalid_option_issue task_name switch_task of
                  Some issue \<Rightarrow> Inr (Inl issue)
                | None \<Rightarrow>
                    (case validate_def (task_name @ ''['' @ case_label switch_task @ '']'') item
                            [''case''] of
                       None \<Rightarrow> check_cases validate_def task_name rest cases'
                     | Some issue \<Rightarrow>
                         if issue \<noteq> [] then Inr (Inl issue)
                         else check_cases validate_def task_name rest cases')))
      | _ \<Rightarrow> Inl (AttributeError ''object has no attribute 'get' ''))"

definition duplicate_issue :: "string \<Rightarrow> (case_key \<times> nat) list \<Rightarrow> string option" where
  "duplicate_issue task_name cases =
     (case filter (\<lambda>(c, count). count > 1) cases of
        [] \<Rightarrow> None
      | (c, count) # others \<Rightarrow>
          Some (case c of
                  Sentinel \<Rightarrow>
                    ''Switch task '' @ py_repr task_name @ '' includes more than one default case''
                | Given v \<Rightarrow>
                    ''Switch task '' @ py_repr task_name @ '' includes more than one case for ''
                      @ py_repr_val v))"

definition default_option_issue ::
  "string \<Rightarrow> (string \<times> pyval) list \<Rightarrow> (case_key \<times> nat) list \<Rightarrow> string option" where
  "default_option_issue task_name task_def cases =
     (case map_of task_def ''default'' of
        None \<Rightarrow> None
      | Some d \<Rightarrow>
          if d \<noteq> PStr ''pass'' \<and> d \<noteq> PStr ''fail''
          then Some (''The 'default' option for switch task '' @ py_repr task_name
                      @ '' should be one of ('pass', 'fail')'')
          else if list_ex (\<lambda>(c, count). same_key c Sentinel) cases
          then Some (''Switch task '' @ py_repr task_name
                      @ '' should not have both a default case and the 'default' option.'')
          else None)"

definition SwitchTask_validate_task_def ::
  "(string \<Rightarrow> pyval \<Rightarrow> string list \<Rightarrow> string option) \<Rightarrow> string \<Rightarrow> (string \<times> pyval) list \<Rightarrow>
   error + string option" where
  "SwitchTask_validate_task_def validate_def task_name task_def =
     (let control_task_def = (case map_of task_def ''control'' of Some v \<Rightarrow> v | None \<Rightarrow> PNone)
      in if \<not> truthy control_task_def
         then Inr (Some (''Switch task '' @ py_repr task_name @ '' has no control task.''))
         else if (case control_task_def of
                    PDict d \<Rightarrow> \<not> list_ex (\<lambda>key. key \<in> set (map fst d)) [''expr'', ''cmd'', ''script'']
                  | _ \<Rightarrow> False)
         then Inr (Some (''Control task for '' @ py_repr task_name
                          @ '' must have a type that is one of ('expr', 'cmd', 'script')''))
         else
           (case validate_def (task_name @ ''[control]'') control_task_def [] of
              Some (c # cs) \<Rightarrow> Inr (Some (c # cs))
            | _ \<Rightarrow>
                (case py_getitem (PDict task_def) ''switch'' of
                   Inl e \<Rightarrow> Inl e
                 | Inr content \<Rightarrow>
                     (case py_iter content of
                        Inl e \<Rightarrow> Inl e
                      | Inr items \<Rightarrow>
                          (case check_cases validate_def task_name items [] of
                             Inl e \<Rightarrow> Inl e
                           | Inr (Inl issue) \<Rightarrow> Inr (Some issue)
                           | Inr (Inr cases) \<Rightarrow>
                               (case duplicate_issue task_name cases of
                                  Some issue \<Rightarrow> Inr (Some issue)
                                | None \<Rightarrow> Inr (default_option_issue task_name task_def cases)))))))"

section \<open>Examples used below\<close>


text \<open>
  A hierarchy three classes deep below \<open>PoeOptions\<close>, each class declaring one field.
\<close>

definition demo_A :: pyclass where
  "demo_A = Class ''A'' [(''a'', TStr)] [] [PoeOptions]"

definition demo_B :: pyclass where
  "demo_B = Class ''B'' [(''b'', TStr)] [] [demo_A]"

definition demo_C :: pyclass where
  "demo_C = Class ''C'' [(''c'', TStr)] [] [demo_B]"

text \<open>
  A stand-in for the options class of \<open>PoeTask\<close> in the examples, with the options that
  the sources read from it or forbid in a case.
\<close>

definition demo_TaskOptions :: pyclass where
  "demo_TaskOptions =
     Class ''TaskOptions''
       [(''args'', TUnion [TDict, TList]), (''capture_stdout'', TStr), (''deps'', TSequenceOf TStr)]
       [] [PoeOptions]"

definition demo_switch_spec :: "string switch_spec" where
  "demo_switch_spec =
     \<lparr>sw_spec_name = ''pick'',
      sw_spec_options = \<lparr>options_class = SwitchTask_TaskOptions demo_TaskOptions, bound = []\<rparr>,
      control_spec = ''pick[control]'',
      case_specs = [([PStr ''a'', PStr ''b''], ''pick[0]'')]\<rparr>"

definition demo_sequence_spec :: "string sequence_spec" where
  "demo_sequence_spec =
     \<lparr>spec_name = ''seq'',
      spec_options = \<lparr>options_class = SequenceTask_TaskOptions demo_TaskOptions, bound = []\<rparr>,
      spec_subtasks = [''seq[0]'', ''seq[1]'']\<rparr>"

text \<open>
  The merge example of the specification: the root declares task \<open>a\<close>, the first include
  task \<open>b\<close>, the second include tasks \<open>a\<close> and \<open>c\<close>.
\<close>


definition demo_root :: config_partition where
  "demo_root =
     \<lparr>options = \<lparr>options_class = ProjectConfig_ConfigOptions,
                  bound = [(''tasks'', PDict [(''a'', PStr ''echo A'')])]\<rparr>,
      full_config = PDict [(''tool.poe'', PDict [(''tasks'', PDict [(''a'', PStr ''echo A'')])])],
      poe_options = PDict [(''tasks'', PDict [(''a'', PStr ''echo A'')])],
      path = None\<rparr>"

definition demo_include :: "string \<Rightarrow> (string \<times> pyval) list \<Rightarrow> config_partition" where
  "demo_include file ts =
     \<lparr>options = \<lparr>options_class = IncludedConfig_ConfigOptions, bound = [(''tasks'', PDict ts)]\<rparr>,
      full_config = PDict [(''tool'', PDict [(''poe'', PDict [(''tasks'', PDict ts)])])],
      poe_options = PDict [(''tasks'', PDict ts)],
      path = Some file\<rparr>"

definition demo_merge_config :: poe_config where
  "demo_merge_config =
     \<lparr>cwd = ''/proj'', project_config = demo_root,
      included_config =
        [demo_include ''/proj/one.toml'' [(''b'', PStr ''echo B1'')],
         demo_include ''/proj/two.toml'' [(''a'', PStr ''echo B2''), (''c'', PStr ''echo C'')]],
      config_name = ''pyproject.toml'', project_dir = Some ''/proj''\<rparr>"

text \<open>
  The state in which the first subtask of a sequence starts: the named argument values
  are in the environment, and the run is marked multistage when there is more than one
  subtask.
\<close>

definition state_before_subtasks ::
  "((string \<times> string) list \<Rightarrow> 'w \<Rightarrow> 'w) \<Rightarrow> 'w sequence_task \<Rightarrow> 'w run_state \<Rightarrow> 'w run_state" where
  "state_before_subtasks env_update self s0 =
     (if length (subtasks self) > 1
      then s0\<lparr>world := env_update (seq_named_arg_values self (world s0)) (world s0),
              multistage := True\<rparr>
      else s0\<lparr>world := env_update (seq_named_arg_values self (world s0)) (world s0)\<rparr>)"

text \<open>
  Example tasks: the world is the list of the names of the tasks that have run; a task
  adds its name and returns the given exit status.
\<close>

definition demo_task :: "string \<Rightarrow> int \<Rightarrow> string list task" where
  "demo_task n status =
     \<lparr>t_name = n, t_invocation = [n],
      t_run = (\<lambda>extra_args s. (Inr status, s\<lparr>world := world s @ [n]\<rparr>))\<rparr>"

definition demo_sequence :: "(string \<times> pyval) list \<Rightarrow> string list sequence_task" where
  "demo_sequence task_def =
     \<lparr>seq_name = ''seq'',
      seq_options = \<lparr>options_class = SequenceTask_TaskOptions demo_TaskOptions, bound = task_def\<rparr>,
      subtasks = [demo_task ''seq[0]'' 0, demo_task ''seq[1]'' 1, demo_task ''seq[2]'' 0],
      seq_named_arg_values = (\<lambda>w. [])\<rparr>"

definition demo_state :: "string list run_state" where
  "demo_state = \<lparr>dry = False, multistage = False, world = []\<rparr>"

text \<open>
  The state in which the control task of a switch starts: the named argument values are
  in the environment and the run is marked multistage.
\<close>

definition state_before_control ::
  "((string \<times> string) list \<Rightarrow> 'w \<Rightarrow> 'w) \<Rightarrow> 'w switch_task \<Rightarrow> 'w run_state \<Rightarrow> 'w run_state" where
  "state_before_control env_update self s0 =
     s0\<lparr>world := env_update (sw_named_arg_values self (world s0)) (world s0), multistage := True\<rparr>"

text \<open>
  An example switch: the cases \<open>a\<close>, \<open>[b, c]\<close> and, when asked for, a default case; the
  control task succeeds.
\<close>

definition demo_cases :: "bool \<Rightarrow> (pyval \<times> string list task) list" where
  "demo_cases with_default =
     [(PStr ''a'', demo_task ''pick[0]'' 0),
      (PStr ''b'', demo_task ''pick[1]'' 3),
      (PStr ''c'', demo_task ''pick[1]'' 3)]
     @ (if with_default then [(PStr DEFAULT_CASE, demo_task ''pick[2]'' 0)] else [])"

definition demo_switch :: "(string \<times> pyval) list \<Rightarrow> bool \<Rightarrow> string list switch_task" where
  "demo_switch task_def with_default =
     \<lparr>sw_name = ''pick'',
      sw_options = \<lparr>options_class = SwitchTask_TaskOptions demo_TaskOptions, bound = task_def\<rparr>,
      control_task = demo_task ''pick[control]'' 0,
      switch_tasks = demo_cases with_default,
      sw_named_arg_values = (\<lambda>w. [])\<rparr>"

text \<open>
  Example switch definitions: \<open>demo_switch_def cases extra\<close> has a command as control
  task, the given case definitions and the given further options.
\<close>

definition demo_switch_def :: "(string \<times> pyval) list list \<Rightarrow> (string \<times> pyval) list \<Rightarrow> (string \<times> pyval) list" where
  "demo_switch_def cases extra =
     [(''control'', PDict [(''cmd'', PStr ''uname'')]), (''switch'', PList (map PDict cases))] @ extra"

text \<open>The names of the declared fields of a class, and an options object of the root.\<close>

definition declared_fields :: "pyclass \<Rightarrow> string list" where
  "declared_fields cls = (case get_fields cls of Inr flds \<Rightarrow> map fst flds | Inl e \<Rightarrow> [])"

definition demo_options :: options_obj where
  "demo_options = \<lparr>options_class = ProjectConfig_ConfigOptions, bound = [(''verbosity'', PInt 2)]\<rparr>"



section \<open>Which exceptions the options schema can raise\<close>

lemma annotations_of_err: "annotations_of c = Inl e \<Longrightarrow> \<exists>m. e = AttributeError m"
  by (cases c) auto

lemma update_from_bases_err: "update_from_bases a bs = Inl e \<Longrightarrow> \<exists>m. e = AttributeError m"
  by (induction a bs rule: update_from_bases.induct)
     (auto split: sum.splits dest: annotations_of_err)

lemma get_fields_err: "get_fields c = Inl e \<Longrightarrow> \<exists>m. e = AttributeError m"
  by (auto simp: get_fields_def split: sum.splits dest: annotations_of_err update_from_bases_err)

lemma construct_err: "construct t = Inl e \<Longrightarrow> \<exists>m. e = TypeError m"
  by (cases t) auto

lemma type_of_err:
  "type_of c k = Inl e \<Longrightarrow> (\<exists>m. e = AttributeError m) \<or> (\<exists>m. e = KeyError m)"
  by (auto simp: type_of_def Let_def split: sum.splits option.splits if_splits dest: get_fields_err)

lemma get_not_PoeException: "get self key d \<noteq> Inl (PoeException m c)"
  by (auto simp: get_def Let_def
           split: sum.splits option.splits bool.splits type_check.splits list.splits if_splits
           dest: get_fields_err construct_err type_of_err)

lemma isinstance1_err: "isinstance1 v t = Inl e \<Longrightarrow> \<exists>m. e = TypeError m"
  by (cases t) auto

lemma isinstance_tuple_err: "isinstance_tuple v ts = Inl e \<Longrightarrow> \<exists>m. e = TypeError m"
  by (induction ts) (auto split: sum.splits bool.splits dest: isinstance1_err)

lemma isinstance_err: "isinstance v tc = Inl e \<Longrightarrow> \<exists>m. e = TypeError m"
  by (cases tc) (auto dest: isinstance1_err isinstance_tuple_err)

lemma py_contains_err: "py_contains v k = Inl e \<Longrightarrow> \<exists>m. e = TypeError m"
  by (cases v) auto

section \<open>Validation of option types (C1)\<close>

text \<open>
  The type check of \<open>_validate_config\<close> never ends in a \<open>PoeException\<close>: whatever the
  partition and the keys, a value of the wrong type ends in the \<open>NameError\<close> of the
  unbound \<open>option_type\<close>, or in an exception of the check itself.
\<close>

lemma is_option_type_valid_not_PoeException:
  "is_option_type_valid p key \<noteq> Inl (PoeException m c)"
  by (auto simp: is_option_type_valid_def get_not_PoeException split: sum.splits
           dest: type_of_err isinstance_err)

lemma validate_option_types_not_PoeException:
  "validate_option_types p keys \<noteq> Inl (PoeException m c)"
  by (induction keys)
     (auto split: sum.splits bool.splits dest: py_contains_err
           simp: is_option_type_valid_not_PoeException)

text \<open>
  C1. The claim: a declared key of the poe section whose value has the wrong type makes
  \<open>validate\<close> raise a configuration error (\<open>PoeException\<close>). The code at
  \<open>verbosity = "high"\<close> (declared \<open>int\<close>): the configuration is built, and \<open>validate\<close>
  raises \<open>NameError\<close>, whatever the later steps would do.
\<close>

theorem validate_wrong_type_raises_NameError:
  "\<exists>cfg. PoeConfig_init ''/proj'' (PDict [(''verbosity'', PStr ''high'')]) ''pyproject.toml'' = Inr cfg
     \<and> validate rest cfg = Inl (NameError ''name 'option_type' is not defined'')"
  by (simp add: PoeConfig_init_def ProjectConfig_def ConfigPartition_init_def PoeOptions_init_def
        validate_def validate_config_def unsupported_keys_def is_option_type_valid_def get_def
        hasattr_def getattr_def attr_name_def iskeyword_def kwlist_def type_of_def get_fields_def
        dict_update_def ProjectConfig_ConfigOptions_def PoeOptions_def)

text \<open>
  A union-typed option never reaches that \<open>raise\<close> unless its value is a string: the
  tuple of the union's members holds a subscripted generic, which \<open>isinstance\<close> refuses.
  So a list of env files raises \<open>TypeError\<close>.
\<close>

lemma validate_union_option_raises_TypeError:
  "\<exists>cfg. PoeConfig_init ''/proj'' (PDict [(''envfile'', PList [PStr ''.env''])]) ''pyproject.toml''
           = Inr cfg
     \<and> validate rest cfg
       = Inl (TypeError ''Subscripted generics cannot be used with class and instance checks'')"
  by (simp add: PoeConfig_init_def ProjectConfig_def ConfigPartition_init_def PoeOptions_init_def
        validate_def validate_config_def unsupported_keys_def is_option_type_valid_def get_def
        hasattr_def getattr_def attr_name_def iskeyword_def kwlist_def type_of_def get_fields_def
        dict_update_def ProjectConfig_ConfigOptions_def PoeOptions_def object_attrs_def)

section \<open>Fields of a class (C8)\<close>

text \<open>
  Where the hierarchy is two classes deep, as for every options class of the sources,
  the table holds the public fields of the base and of the class: the private annotation
  of \<open>PoeOptions\<close> is left out.
\<close>

lemma get_fields_direct_subclass: "get_fields demo_A = Inr [(''a'', TStr)]"
  by (simp add: get_fields_def demo_A_def PoeOptions_def dict_update_def)

lemma get_fields_parent_and_own:
  "get_fields (SequenceTask_TaskOptions demo_TaskOptions)
   = Inr [(''args'', TUnion [TDict, TList]), (''capture_stdout'', TStr), (''deps'', TSequenceOf TStr),
          (''ignore_fail'', TUnion [TBool, TStr]), (''default_item_type'', TStr)]"
  by (simp add: get_fields_def SequenceTask_TaskOptions_def demo_TaskOptions_def dict_update_def)

text \<open>
  C8. The claim: \<open>get_fields\<close> returns the fields of the class and of all its ancestors.
  The code on the class \<open>C(B)\<close>, with \<open>B(A)\<close> and \<open>A(PoeOptions)\<close> declaring \<open>c\<close>,
  \<open>b\<close> and \<open>a\<close>: the field \<open>a\<close> of the grandparent is missing, since only the direct
  bases are read.
\<close>

theorem get_fields_misses_grandparent:
  "get_fields demo_C = Inr [(''b'', TStr), (''c'', TStr)]"
  by (simp add: get_fields_def demo_C_def demo_B_def demo_A_def dict_update_def)

section \<open>Instantiating a switch task (C5)\<close>

text \<open>
  No switch task with a case can be built: whatever the collaborators do, the constructor
  does not return.
\<close>

lemma SwitchTask_init_with_case_fails:
  "SwitchTask_init base_init from_spec spec_control self_options
     (spec\<lparr>case_specs := c # cs\<rparr>) invocation capture_stdout inheritance \<noteq> Inr r"
  by (cases c) (auto simp: SwitchTask_init_def split: sum.splits)

text \<open>
  C5. The claim: instantiation creates the control task with capture forced on, and one
  task per case, registered under each of its case values. The code on a spec with one
  case for the values \<open>a\<close> and \<open>b\<close>, with collaborators that always succeed: the control
  task is created, then the loop over the cases raises \<open>NameError\<close> for the unbound
  \<open>name\<close>, and no case task is created.
\<close>

theorem SwitchTask_init_raises_NameError:
  "SwitchTask_init (\<lambda>spec invocation capture inheritance. Inr capture)
     (\<lambda>self spec invocation capture. Inr (spec, invocation, capture))
     (\<lambda>spec. Inr (control_spec spec))
     (\<lambda>self. Inr (sw_spec_options demo_switch_spec))
     demo_switch_spec [''pick''] (PBool False) ()
   = Inl (NameError ''name 'name' is not defined'')"
  by code_simp

text \<open>
  With no case at all the constructor returns what the collaborators give; the control
  task is asked for with capture on, whatever \<open>capture_stdout\<close> the switch was given.
\<close>

lemma SwitchTask_init_control_captures:
  "SwitchTask_init base_init from_spec spec_control self_options
     (spec\<lparr>case_specs := []\<rparr>) invocation capture_stdout inheritance
   = (case base_init (spec\<lparr>case_specs := []\<rparr>) invocation False inheritance of
        Inl e \<Rightarrow> Inl e
      | Inr self \<Rightarrow>
          (case get (sw_spec_options spec) ''args'' None of
             Inl e \<Rightarrow> Inl e
           | Inr args \<Rightarrow>
               (case spec_control (spec\<lparr>case_specs := []\<rparr>) of
                  Inl e \<Rightarrow> Inl e
                | Inr control \<Rightarrow>
                    (case from_spec self control
                            (if truthy args then sw_spec_name spec # drop 1 invocation
                             else [sw_spec_name spec])
                            (PBool True) of
                       Inl e \<Rightarrow> Inl e
                     | Inr c \<Rightarrow> Inr (self, c, [])))))"
  by (simp add: SwitchTask_init_def split: sum.splits)

lemma SwitchTask_init_without_cases:
  "SwitchTask_init (\<lambda>spec invocation capture inheritance. Inr capture)
     (\<lambda>self spec invocation capture. Inr (spec, invocation, capture))
     (\<lambda>spec. Inr (control_spec spec))
     (\<lambda>self. Inr (sw_spec_options demo_switch_spec))
     (demo_switch_spec\<lparr>case_specs := []\<rparr>) [''pick''] (PBool False) ()
   = Inr (False, (''pick[control]'', [''pick''], PBool True), [])"
  by code_simp

section \<open>A sequence task never captures (C10)\<close>

text \<open>
  C10. Constructing a sequence task with \<open>capture_stdout=True\<close> fails the assertion; a
  construction that succeeds was given \<open>False\<close> or \<open>None\<close>; and the constructor of
  \<open>PoeTask\<close> is always handed \<open>False\<close>: a base constructor that returns the flag it was
  given returns \<open>False\<close>, and two base constructors that agree on \<open>False\<close> give the same
  result.
\<close>

theorem SequenceTask_init_never_captures:
  "SequenceTask_init base_init from_spec spec invocation (PBool True) inheritance = Inl AssertionError
   \<and> (SequenceTask_init base_init from_spec spec invocation c inheritance = Inr r
        \<longrightarrow> in_False_None c)
   \<and> (SequenceTask_init (\<lambda>spec invocation capture inheritance. Inr capture) from_spec' spec
          invocation c inheritance = Inr (flag, ts)
        \<longrightarrow> flag = False)
   \<and> ((\<forall>sp inv inh. base_init sp inv False inh = base_init' sp inv False inh)
        \<longrightarrow> SequenceTask_init base_init from_spec spec invocation c inheritance
            = SequenceTask_init base_init' from_spec spec invocation c inheritance)"
  by (auto simp: SequenceTask_init_def in_False_None_def split: sum.splits if_splits)

theorem SequenceTask_init_never_captures_witness:
  "SequenceTask_init (\<lambda>spec invocation capture inheritance. Inr capture)
      (\<lambda>self task_spec array_item. Inr (task_spec, array_item))
      demo_sequence_spec [''seq''] (PBool True) () = Inl AssertionError
   \<and> in_False_None PNone
   \<and> SequenceTask_init (\<lambda>spec invocation capture inheritance. Inr capture)
      (\<lambda>self task_spec array_item. Inr (task_spec, array_item))
      demo_sequence_spec [''seq''] PNone ()
     = Inr (False, [(''seq[0]'', PBool True), (''seq[1]'', PBool True)])"
proof -
  let ?base = "\<lambda>(spec :: string sequence_spec) (invocation :: string list) (capture :: bool)
                  (inheritance :: unit). (Inr capture :: error + bool)"
  let ?from = "\<lambda>(self :: bool) (task_spec :: string) (array_item :: pyval).
                  (Inr (task_spec, array_item) :: error + string \<times> pyval)"
  have built: "\<exists>flag. SequenceTask_init ?base ?from demo_sequence_spec [''seq''] PNone ()
                 = Inr (flag, [(''seq[0]'', PBool True), (''seq[1]'', PBool True)])"
    by code_simp
  then obtain flag where r:
    "SequenceTask_init ?base ?from demo_sequence_spec [''seq''] PNone ()
       = Inr (flag, [(''seq[0]'', PBool True), (''seq[1]'', PBool True)])"
    by blast
  note inst = SequenceTask_init_never_captures
    [of ?base ?from demo_sequence_spec "[''seq'']" "()" PNone
        "(flag, [(''seq[0]'', PBool True), (''seq[1]'', PBool True)])" ?from flag
        "[(''seq[0]'', PBool True), (''seq[1]'', PBool True)]" ?base]
  from inst r have "flag = False" and "in_False_None PNone" by blast+
  with inst r show ?thesis by blast
qed

section \<open>The merged task table (C2)\<close>

text \<open>The example partitions are what the constructors build.\<close>

lemma demo_root_built:
  "PoeConfig_init ''/proj'' (PDict [(''tasks'', PDict [(''a'', PStr ''echo A'')])]) ''pyproject.toml''
   = Inr (demo_merge_config\<lparr>included_config := []\<rparr>)"
  by code_simp

lemma demo_include_built:
  "IncludedConfig (PDict [(''tool'', PDict [(''poe'', PDict [(''tasks'', PDict [(''b'', PStr ''echo B1'')])])])])
      ''/proj'' (Some ''/proj/one.toml'') = Inr (demo_include ''/proj/one.toml'' [(''b'', PStr ''echo B1'')])"
  by code_simp

text \<open>Looking a key up after \<open>update\<close>: the argument's entry wins.\<close>

lemma map_of_dict_update:
  "distinct (map fst other) \<Longrightarrow> map_of (dict_update d other) = map_of d ++ map_of other"
proof (induction other arbitrary: d)
  case Nil
  then show ?case by (simp add: dict_update_def)
next
  case (Cons x xs)
  obtain k v where x: "x = (k, v)" by (cases x)
  from Cons.prems x have k: "k \<notin> dom (map_of xs)" and dxs: "distinct (map fst xs)"
    by (auto simp: dom_map_of_conv_image_fst)
  have "map_of (dict_update d (x # xs)) = map_of (dict_update (AList.update k v d) xs)"
    by (simp add: dict_update_def x)
  also have "\<dots> = map_of (AList.update k v d) ++ map_of xs"
    using Cons.IH[OF dxs] .
  also have "\<dots> = (map_of d)(k \<mapsto> v) ++ map_of xs"
    by (simp add: update_conv')
  also have "\<dots> = map_of d ++ map_of (x # xs)"
    using k by (simp add: x map_add_upd_left)
  finally show ?case .
qed

lemma update_from_configs_mappings:
  "map (\<lambda>c. partition_get c ''tasks'' None) cs = map (\<lambda>d. Inr (PDict d)) ds
   \<Longrightarrow> update_from_configs result cs = Inr (foldl dict_update result ds)"
proof (induction cs arbitrary: ds result)
  case Nil
  then show ?case by simp
next
  case (Cons c cs)
  then obtain d ds' where ds: "ds = d # ds'" by (cases ds) auto
  with Cons.prems have c: "partition_get c ''tasks'' None = Inr (PDict d)"
    and rest: "map (\<lambda>c. partition_get c ''tasks'' None) cs = map (\<lambda>d. Inr (PDict d)) ds'"
    by auto
  show ?case using Cons.IH[OF rest] by (simp add: c ds update_with_def)
qed

lemma lookup_overlay_reversed:
  "\<forall>d\<in>set incs. distinct (map fst d)
   \<Longrightarrow> map_of (foldl dict_update [] (rev incs)) k = first_some (map (\<lambda>d. map_of d k) incs)"
proof (induction incs)
  case Nil
  then show ?case by simp
next
  case (Cons d ds)
  then have "map_of (foldl dict_update [] (rev (d # ds))) k
      = (map_of (foldl dict_update [] (rev ds)) ++ map_of d) k"
    by (simp add: map_of_dict_update)
  also have "\<dots> = first_some (map (\<lambda>d. map_of d k) (d # ds))"
    using Cons by (cases "map_of d k") (simp_all add: map_add_def)
  finally show ?case .
qed

text \<open>
  C2. When the root's and every include's \<open>tasks\<close> option is a dictionary, the merged table
  is the empty table updated with the includes' tables from the last declared to the
  first, then with the root's. So a key of the root has the root's value, and any other
  key has the value of the first include, in declaration order, that defines it.
\<close>

theorem tasks_merge_precedence:
  assumes root: "partition_get (project_config self) ''tasks'' None = Inr (PDict root)"
    and incs: "map (\<lambda>c. partition_get c ''tasks'' None) (included_config self)
               = map (\<lambda>d. Inr (PDict d)) incs"
    and wf_root: "distinct (map fst root)"
    and wf_incs: "\<forall>d\<in>set incs. distinct (map fst d)"
  shows "tasks self = Inr (dict_update (foldl dict_update [] (rev incs)) root)
     \<and> (\<forall>k. map_of (dict_update (foldl dict_update [] (rev incs)) root) k
             = (case map_of root k of
                  Some v \<Rightarrow> Some v
                | None \<Rightarrow> first_some (map (\<lambda>d. map_of d k) incs)))"
proof -
  from incs have "map (\<lambda>c. partition_get c ''tasks'' None) (rev (included_config self))
                  = map (\<lambda>d. Inr (PDict d)) (rev incs)"
    by (simp add: rev_map[symmetric])
  then have "update_from_configs [] (rev (included_config self))
             = Inr (foldl dict_update [] (rev incs))"
    by (rule update_from_configs_mappings)
  then have t: "tasks self = Inr (dict_update (foldl dict_update [] (rev incs)) root)"
    by (simp add: tasks_def root update_with_def)
  have "map_of (dict_update (foldl dict_update [] (rev incs)) root) k
        = (case map_of root k of
             Some v \<Rightarrow> Some v
           | None \<Rightarrow> first_some (map (\<lambda>d. map_of d k) incs))" for k
    using wf_root wf_incs
    by (simp add: map_of_dict_update lookup_overlay_reversed map_add_def split: option.splits)
  with t show ?thesis by blast
qed

text \<open>
  The example of the specification: root \<open>{a: A}\<close>, includes \<open>[{b: B1}, {a: B2, c: C}]\<close>;
  the merged table holds the same entries as \<open>{b: B1, a: A, c: C}\<close>.
\<close>

theorem tasks_merge_precedence_witness:
  "tasks demo_merge_config
     = Inr [(''a'', PStr ''echo A''), (''c'', PStr ''echo C''), (''b'', PStr ''echo B1'')]
   \<and> map_of [(''a'', PStr ''echo A''), (''c'', PStr ''echo C''), (''b'', PStr ''echo B1'')]
     = map_of [(''b'', PStr ''echo B1''), (''a'', PStr ''echo A''), (''c'', PStr ''echo C'')]"
proof -
  let ?root = "[(''a'', PStr ''echo A'')]"
  let ?incs = "[[(''b'', PStr ''echo B1'')], [(''a'', PStr ''echo B2''), (''c'', PStr ''echo C'')]]"
  have h1: "partition_get (project_config demo_merge_config) ''tasks'' None = Inr (PDict ?root)"
    by code_simp
  have h2: "map (\<lambda>c. partition_get c ''tasks'' None) (included_config demo_merge_config)
            = map (\<lambda>d. Inr (PDict d)) ?incs"
    by code_simp
  have h3: "distinct (map fst ?root)" by simp
  have h4: "\<forall>d\<in>set ?incs. distinct (map fst d)" by simp
  have e: "dict_update (foldl dict_update [] (rev ?incs)) ?root
           = [(''a'', PStr ''echo A''), (''c'', PStr ''echo C''), (''b'', PStr ''echo B1'')]"
    by (simp add: dict_update_def)
  from tasks_merge_precedence[OF h1 h2 h3 h4] e
  have t: "tasks demo_merge_config
     = Inr [(''a'', PStr ''echo A''), (''c'', PStr ''echo C''), (''b'', PStr ''echo B1'')]"
    by simp
  have "map_of [(''a'', PStr ''echo A''), (''c'', PStr ''echo C''), (''b'', PStr ''echo B1'')] k
     = map_of [(''b'', PStr ''echo B1''), (''a'', PStr ''echo A''), (''c'', PStr ''echo C'')] k" for k
    by simp
  then have "map_of [(''a'', PStr ''echo A''), (''c'', PStr ''echo C''), (''b'', PStr ''echo B1'')]
     = map_of [(''b'', PStr ''echo B1''), (''a'', PStr ''echo A''), (''c'', PStr ''echo C'')]"
    by (rule ext)
  with t show ?thesis by blast
qed

section \<open>Running a sequence (C3)\<close>

text \<open>
  The loop over the subtasks against running a list in order: when failures are
  ignored the loop runs every subtask and collects the names of the failed ones; when
  they are not, it runs through the subtasks that succeed and stops at the first that
  fails.
\<close>

lemma failed_names_Cons:
  "failed_names ((n, r) # rs) = (if r \<noteq> 0 then n # failed_names rs else failed_names rs)"
  by (simp add: failed_names_def)

lemma run_subtasks_ignoring:
  "truthy ignore_fail \<Longrightarrow> run_in_order ts s = (Inr rs, s')
   \<Longrightarrow> run_subtasks ignore_fail ts acc s = (Inr (acc @ failed_names rs), s')"
proof (induction ts arbitrary: s acc rs)
  case Nil
  then show ?case by (simp add: failed_names_def)
next
  case (Cons t ts)
  from Cons.prems(2) obtain r s1 rs1 where
    t: "t_run t [] s = (Inr r, s1)" and rest: "run_in_order ts s1 = (Inr rs1, s')"
    and rs: "rs = (t_name t, r) # rs1"
    by (auto split: prod.splits sum.splits)
  show ?case
    using Cons.IH[OF Cons.prems(1) rest] Cons.prems(1)
    by (simp add: t rs failed_names_Cons)
qed

lemma run_subtasks_all_succeed:
  "run_in_order ts s = (Inr rs, s') \<Longrightarrow> failed_names rs = []
   \<Longrightarrow> run_subtasks ignore_fail ts acc s = (Inr acc, s')"
proof (induction ts arbitrary: s rs)
  case Nil
  then show ?case by simp
next
  case (Cons t ts)
  from Cons.prems(1) obtain r s1 rs1 where
    t: "t_run t [] s = (Inr r, s1)" and rest: "run_in_order ts s1 = (Inr rs1, s')"
    and rs: "rs = (t_name t, r) # rs1"
    by (auto split: prod.splits sum.splits)
  from Cons.prems(2) rs have r0: "r = 0" and f: "failed_names rs1 = []"
    by (auto simp: failed_names_Cons split: if_splits)
  show ?case using Cons.IH[OF rest f] by (simp add: t r0)
qed

lemma run_subtasks_stops_at_first_failure:
  assumes "\<not> truthy ignore_fail"
    and "run_in_order pre s = (Inr rs, s3)" and "failed_names rs = []"
    and "t_run t [] s3 = (Inr r, s4)" and "r \<noteq> 0"
  shows "run_subtasks ignore_fail (pre @ t # post) acc s
         = (Inl (ExecutionError (''Sequence aborted after failed subtask '' @ py_repr (t_name t))), s4)"
  using assms(2,3)
proof (induction pre arbitrary: s rs)
  case Nil
  then show ?case using assms(1,4,5) by simp
next
  case (Cons p pre)
  from Cons.prems(1) obtain r1 s1 rs1 where
    p: "t_run p [] s = (Inr r1, s1)" and rest: "run_in_order pre s1 = (Inr rs1, s3)"
    and rs: "rs = (t_name p, r1) # rs1"
    by (auto split: prod.splits sum.splits)
  from Cons.prems(2) rs have r0: "r1 = 0" and f: "failed_names rs1 = []"
    by (auto simp: failed_names_Cons split: if_splits)
  show ?case using Cons.IH[OF rest f] by (simp add: p r0)
qed

lemma SequenceTask_handle_run_accepted:
  assumes "seq_named_arg_values self (world s0) \<noteq> [] \<or> \<not> list_ex strip_nonempty extra_args"
    and "get (seq_options self) ''ignore_fail'' None = Inr ignore_fail"
  shows "SequenceTask_handle_run env_update self extra_args s0
         = (case run_subtasks ignore_fail (subtasks self) []
                   (state_before_subtasks env_update self s0) of
              (Inl e, s3) \<Rightarrow> (Inl e, s3)
            | (Inr non_zero_subtasks, s3) \<Rightarrow>
                if non_zero_subtasks \<noteq> [] \<and> ignore_fail = PStr ''return_non_zero''
                then (Inl (ExecutionError
                            (''Subtasks '' @ join '', '' non_zero_subtasks
                               @ '' returned non-zero exit status'')), s3)
                else (Inr 0, s3))"
  using assms
  by (auto simp: SequenceTask_handle_run_def state_before_subtasks_def Let_def)

text \<open>
  C3. A sequence whose arguments are accepted, with \<open>ignore_fail\<close> read from its options,
  and whose subtasks return exit statuses. \<open>s2\<close> is the state in which the first subtask
  starts.

  \<^item> \<open>ignore_fail\<close> false: when the subtasks before \<open>t\<close> run in order and succeed and \<open>t\<close>
    fails, the run ends in the state \<open>t\<close> left, with the error that names \<open>t\<close>; the
    subtasks after \<open>t\<close> have no part in the result. When all succeed, so does the run.
  \<^item> \<open>ignore_fail\<close> \<open>"return_non_zero"\<close>: all subtasks run in order; the run fails with
    the names of the failed subtasks exactly when there is one.
  \<^item> any other true value (\<open>true\<close>, \<open>"return_zero"\<close>): all subtasks run in order and the
    run succeeds.
\<close>

theorem SequenceTask_handle_run_policy:
  assumes accepted:
      "seq_named_arg_values self (world s0) \<noteq> [] \<or> \<not> list_ex strip_nonempty extra_args"
    and opt: "get (seq_options self) ''ignore_fail'' None = Inr ignore_fail"
    and s2: "s2 = state_before_subtasks env_update self s0"
  shows
    "(\<not> truthy ignore_fail \<and> subtasks self = pre @ t # post
        \<and> run_in_order pre s2 = (Inr rs, s3) \<and> failed_names rs = []
        \<and> t_run t [] s3 = (Inr r, s4) \<and> r \<noteq> 0
      \<longrightarrow> SequenceTask_handle_run env_update self extra_args s0
            = (Inl (ExecutionError
                     (''Sequence aborted after failed subtask '' @ py_repr (t_name t))), s4))
     \<and> (\<not> truthy ignore_fail \<and> run_in_order (subtasks self) s2 = (Inr rs', s')
          \<and> failed_names rs' = []
      \<longrightarrow> SequenceTask_handle_run env_update self extra_args s0 = (Inr 0, s'))
     \<and> (ignore_fail = PStr ''return_non_zero'' \<and> run_in_order (subtasks self) s2 = (Inr rs', s')
      \<longrightarrow> SequenceTask_handle_run env_update self extra_args s0
            = (if failed_names rs' = [] then Inr 0
               else Inl (ExecutionError
                          (''Subtasks '' @ join '', '' (failed_names rs')
                             @ '' returned non-zero exit status'')), s'))
     \<and> (truthy ignore_fail \<and> ignore_fail \<noteq> PStr ''return_non_zero''
          \<and> run_in_order (subtasks self) s2 = (Inr rs', s')
      \<longrightarrow> SequenceTask_handle_run env_update self extra_args s0 = (Inr 0, s'))"
proof -
  note run = SequenceTask_handle_run_accepted[OF accepted opt, of env_update, folded s2]
  have stop: "SequenceTask_handle_run env_update self extra_args s0
            = (Inl (ExecutionError
                     (''Sequence aborted after failed subtask '' @ py_repr (t_name t))), s4)"
    if "\<not> truthy ignore_fail" "subtasks self = pre @ t # post"
       "run_in_order pre s2 = (Inr rs, s3)" "failed_names rs = []"
       "t_run t [] s3 = (Inr r, s4)" "r \<noteq> 0"
    using run_subtasks_stops_at_first_failure[OF that(1,3,4,5,6), of post "[]"] that(2)
    by (simp add: run)
  have all_ok: "SequenceTask_handle_run env_update self extra_args s0 = (Inr 0, s')"
    if "run_in_order (subtasks self) s2 = (Inr rs', s')" "failed_names rs' = []"
    using run_subtasks_all_succeed[OF that, of ignore_fail "[]"] by (simp add: run)
  have rnz: "SequenceTask_handle_run env_update self extra_args s0
            = (if failed_names rs' = [] then Inr 0
               else Inl (ExecutionError
                          (''Subtasks '' @ join '', '' (failed_names rs')
                             @ '' returned non-zero exit status'')), s')"
    if "ignore_fail = PStr ''return_non_zero''" "run_in_order (subtasks self) s2 = (Inr rs', s')"
    using run_subtasks_ignoring[OF _ that(2), of ignore_fail "[]"] that(1) by (simp add: run)
  have ign: "SequenceTask_handle_run env_update self extra_args s0 = (Inr 0, s')"
    if "truthy ignore_fail" "ignore_fail \<noteq> PStr ''return_non_zero''"
       "run_in_order (subtasks self) s2 = (Inr rs', s')"
    using run_subtasks_ignoring[OF that(1,3), of "[]"] that(2) by (simp add: run)
  from stop all_ok rnz ign show ?thesis by blast
qed

text \<open>
  Unset, \<open>ignore_fail\<close> is \<open>False\<close>: the first member of its declared union, built with no
  argument.
\<close>

lemma ignore_fail_default:
  "get (seq_options (demo_sequence [])) ''ignore_fail'' None = Inr (PBool False)"
  by code_simp

text \<open>
  The examples of the specification, subtasks \<open>[ok, fail, ok]\<close>. With \<open>ignore_fail\<close> unset
  the run stops after the second, which the error names, and the third never runs; with
  \<open>"return_non_zero"\<close> all three run and the error names the second; with \<open>true\<close> all
  three run and the run succeeds.
\<close>

theorem SequenceTask_handle_run_policy_witness:
  "SequenceTask_handle_run (\<lambda>vals w. w) (demo_sequence []) [] demo_state
     = (Inl (ExecutionError (''Sequence aborted after failed subtask 'seq[1]'' @ [CHR 0x27])),
        \<lparr>dry = False, multistage = True, world = [''seq[0]'', ''seq[1]'']\<rparr>)
   \<and> SequenceTask_handle_run (\<lambda>vals w. w)
        (demo_sequence [(''ignore_fail'', PStr ''return_non_zero'')]) [] demo_state
     = (Inl (ExecutionError ''Subtasks seq[1] returned non-zero exit status''),
        \<lparr>dry = False, multistage = True, world = [''seq[0]'', ''seq[1]'', ''seq[2]'']\<rparr>)
   \<and> SequenceTask_handle_run (\<lambda>vals w. w)
        (demo_sequence [(''ignore_fail'', PBool True)]) [] demo_state
     = (Inr 0, \<lparr>dry = False, multistage = True, world = [''seq[0]'', ''seq[1]'', ''seq[2]'']\<rparr>)"
proof -
  let ?upd = "\<lambda>(vals :: (string \<times> string) list) (w :: string list). w"
  let ?s2 = "\<lparr>dry = False, multistage = True, world = ([] :: string list)\<rparr>"
  let ?s3 = "\<lparr>dry = False, multistage = True, world = [''seq[0]'']\<rparr>"
  let ?s4 = "\<lparr>dry = False, multistage = True, world = [''seq[0]'', ''seq[1]'']\<rparr>"
  let ?all = "\<lparr>dry = False, multistage = True, world = [''seq[0]'', ''seq[1]'', ''seq[2]'']\<rparr>"
  let ?rs = "[(''seq[0]'', 0), (''seq[1]'', 1), (''seq[2]'', 0 :: int)]"
  have acc: "seq_named_arg_values (demo_sequence d) (world demo_state) \<noteq> []
             \<or> \<not> list_ex strip_nonempty []" for d
    by simp
  have s2: "?s2 = state_before_subtasks ?upd (demo_sequence d) demo_state" for d
    by (simp add: state_before_subtasks_def demo_sequence_def demo_state_def)
  have sub: "subtasks (demo_sequence d)
             = [demo_task ''seq[0]'' 0] @ demo_task ''seq[1]'' 1 # [demo_task ''seq[2]'' 0]" for d
    by (simp add: demo_sequence_def)
  have pre: "run_in_order [demo_task ''seq[0]'' 0] ?s2 = (Inr [(''seq[0]'', 0)], ?s3)"
    by (simp add: demo_task_def)
  have t: "t_run (demo_task ''seq[1]'' 1) [] ?s3 = (Inr 1, ?s4)"
    by (simp add: demo_task_def)
  have all: "run_in_order (subtasks (demo_sequence d)) ?s2 = (Inr ?rs, ?all)" for d
    by (simp add: demo_sequence_def demo_task_def)
  have o1: "get (seq_options (demo_sequence [])) ''ignore_fail'' None = Inr (PBool False)"
    by code_simp
  have o2: "get (seq_options (demo_sequence [(''ignore_fail'', PStr ''return_non_zero'')]))
              ''ignore_fail'' None = Inr (PStr ''return_non_zero'')"
    by code_simp
  have o3: "get (seq_options (demo_sequence [(''ignore_fail'', PBool True)]))
              ''ignore_fail'' None = Inr (PBool True)"
    by code_simp
  have f: "failed_names ?rs = [''seq[1]'']" "failed_names [(''seq[0]'', 0 :: int)] = []"
    by (simp_all add: failed_names_def)
  have n: "''Sequence aborted after failed subtask '' @ py_repr (t_name (demo_task ''seq[1]'' 1))
           = ''Sequence aborted after failed subtask 'seq[1]'' @ [CHR 0x27]"
    by code_simp
  have w1: "SequenceTask_handle_run ?upd (demo_sequence []) [] demo_state
            = (Inl (ExecutionError (''Sequence aborted after failed subtask 'seq[1]'' @ [CHR 0x27])),
               ?s4)"
    using SequenceTask_handle_run_policy[OF acc o1 s2,
            where pre = "[demo_task ''seq[0]'' 0]" and t = "demo_task ''seq[1]'' 1"
              and post = "[demo_task ''seq[2]'' 0]" and rs = "[(''seq[0]'', 0)]"
              and ?s3.0 = ?s3 and r = 1 and ?s4.0 = ?s4]
      sub pre t f(2) n
    by simp
  have w2: "SequenceTask_handle_run ?upd
              (demo_sequence [(''ignore_fail'', PStr ''return_non_zero'')]) [] demo_state
            = (Inl (ExecutionError ''Subtasks seq[1] returned non-zero exit status''), ?all)"
    using SequenceTask_handle_run_policy[OF acc o2 s2, where rs' = ?rs and s' = ?all] all f(1)
    by simp
  have w3: "SequenceTask_handle_run ?upd (demo_sequence [(''ignore_fail'', PBool True)]) []
              demo_state = (Inr 0, ?all)"
    using SequenceTask_handle_run_policy[OF acc o3 s2, where rs' = ?rs and s' = ?all] all
    by simp
  from w1 w2 w3 show ?thesis by blast
qed

section \<open>Running a switch (C4)\<close>

lemma SwitchTask_handle_run_after_control:
  assumes "sw_named_arg_values self (world s0) \<noteq> [] \<or> \<not> list_ex strip_nonempty extra_args"
    and "get (sw_options self) ''args'' None = Inr args"
    and "t_run (control_task self) (if truthy args then extra_args else [])
           (state_before_control env_update self s0) = (Inr 0, s3)"
    and "\<not> dry s3"
    and "get_task_output s3 (t_invocation (control_task self)) = Inr out"
  shows "SwitchTask_handle_run env_update get_task_output print_action self extra_args s0
         = (case (case map_of (switch_tasks self) (PStr out) of
                    Some t \<Rightarrow> Some t
                  | None \<Rightarrow> map_of (switch_tasks self) (PStr DEFAULT_CASE)) of
              None \<Rightarrow>
                (case get (sw_options self) ''default'' (Some (PStr ''fail'')) of
                   Inl e \<Rightarrow> (Inl e, s3)
                 | Inr d \<Rightarrow>
                     if d = PStr ''pass'' then (Inr 0, s3)
                     else (Inl (ExecutionError
                                 (''Control value '' @ py_repr out
                                    @ '' did not match any cases in switch task ''
                                    @ py_repr (sw_name self) @ ''.'')), s3))
            | Some case_task \<Rightarrow> t_run case_task extra_args s3)"
  using assms
  by (auto simp: SwitchTask_handle_run_def state_before_control_def Let_def)

text \<open>
  C4. A switch whose arguments are accepted, whose control task returns zero leaving a
  state \<open>s3\<close> that is not a dry run, and whose captured control output is \<open>out\<close>.

  \<^item> A case registered under the key equal to \<open>out\<close> is run from \<open>s3\<close> with the
    switch's extra arguments, and its result and state are the switch's.
  \<^item> With no such key, the case registered under the default key is run likewise.
  \<^item> With neither, no case runs (the state is \<open>s3\<close>); the switch succeeds when its
    \<open>default\<close> option is \<open>"pass"\<close>, else it raises the execution error that names \<open>out\<close>.
\<close>

theorem SwitchTask_handle_run_dispatch:
  assumes accepted:
      "sw_named_arg_values self (world s0) \<noteq> [] \<or> \<not> list_ex strip_nonempty extra_args"
    and opt_args: "get (sw_options self) ''args'' None = Inr args"
    and control: "t_run (control_task self) (if truthy args then extra_args else [])
                    (state_before_control env_update self s0) = (Inr 0, s3)"
    and not_dry: "\<not> dry s3"
    and captured: "get_task_output s3 (t_invocation (control_task self)) = Inr out"
  shows
    "(map_of (switch_tasks self) (PStr out) = Some case_task
      \<longrightarrow> SwitchTask_handle_run env_update get_task_output print_action self extra_args s0
            = t_run case_task extra_args s3)
     \<and> (map_of (switch_tasks self) (PStr out) = None
          \<and> map_of (switch_tasks self) (PStr DEFAULT_CASE) = Some case_task
      \<longrightarrow> SwitchTask_handle_run env_update get_task_output print_action self extra_args s0
            = t_run case_task extra_args s3)
     \<and> (map_of (switch_tasks self) (PStr out) = None
          \<and> map_of (switch_tasks self) (PStr DEFAULT_CASE) = None
          \<and> get (sw_options self) ''default'' (Some (PStr ''fail'')) = Inr d
      \<longrightarrow> SwitchTask_handle_run env_update get_task_output print_action self extra_args s0
            = (if d = PStr ''pass'' then Inr 0
               else Inl (ExecutionError
                          (''Control value '' @ py_repr out
                             @ '' did not match any cases in switch task ''
                             @ py_repr (sw_name self) @ ''.'')), s3))"
  by (simp add: SwitchTask_handle_run_after_control
        [where get_task_output = get_task_output, OF accepted opt_args control not_dry captured])

text \<open>
  The examples of the specification. Control output \<open>b\<close> with the cases \<open>a\<close>, \<open>[b, c]\<close> and
  a default case: the case \<open>[b, c]\<close> runs and its status \<open>3\<close> is returned. Output \<open>z\<close>: the
  default case runs. Output \<open>z\<close> and no default case: with \<open>default\<close> unset the switch fails
  naming \<open>z\<close>, with \<open>default: "pass"\<close> it succeeds; in both only the control task has run.
\<close>

theorem SwitchTask_handle_run_dispatch_witness:
  "SwitchTask_handle_run (\<lambda>vals w. w) (\<lambda>s inv. Inr ''b'') (\<lambda>s. s) (demo_switch [] True) []
       demo_state
     = (Inr 3, \<lparr>dry = False, multistage = True, world = [''pick[control]'', ''pick[1]'']\<rparr>)
   \<and> SwitchTask_handle_run (\<lambda>vals w. w) (\<lambda>s inv. Inr ''z'') (\<lambda>s. s) (demo_switch [] True) []
       demo_state
     = (Inr 0, \<lparr>dry = False, multistage = True, world = [''pick[control]'', ''pick[2]'']\<rparr>)
   \<and> SwitchTask_handle_run (\<lambda>vals w. w) (\<lambda>s inv. Inr ''z'') (\<lambda>s. s) (demo_switch [] False) []
       demo_state
     = (Inl (ExecutionError
              (''Control value 'z' did not match any cases in switch task 'pick'.'')),
        \<lparr>dry = False, multistage = True, world = [''pick[control]'']\<rparr>)
   \<and> SwitchTask_handle_run (\<lambda>vals w. w) (\<lambda>s inv. Inr ''z'') (\<lambda>s. s)
       (demo_switch [(''default'', PStr ''pass'')] False) [] demo_state
     = (Inr 0, \<lparr>dry = False, multistage = True, world = [''pick[control]'']\<rparr>)"
proof -
  let ?upd = "\<lambda>(vals :: (string \<times> string) list) (w :: string list). w"
  let ?pa = "\<lambda>s :: string list run_state. s"
  let ?b = "\<lambda>(s :: string list run_state) (inv :: string list). (Inr ''b'' :: error + string)"
  let ?z = "\<lambda>(s :: string list run_state) (inv :: string list). (Inr ''z'' :: error + string)"
  let ?s3 = "\<lparr>dry = False, multistage = True, world = [''pick[control]'']\<rparr>"
  let ?pass = "[(''default'', PStr ''pass'')]"
  have acc: "sw_named_arg_values (demo_switch d b) (world demo_state) \<noteq> []
             \<or> \<not> list_ex strip_nonempty []" for d b
    by simp
  have args1: "get (sw_options (demo_switch [] b)) ''args'' None = Inr (PDict [])" for b
    by (simp add: demo_switch_def) code_simp
  have args2: "get (sw_options (demo_switch ?pass b)) ''args'' None = Inr (PDict [])" for b
    by (simp add: demo_switch_def) code_simp
  have control: "t_run (control_task (demo_switch d b)) (if truthy (PDict []) then [] else [])
                   (state_before_control ?upd (demo_switch d b) demo_state) = (Inr 0, ?s3)" for d b
    by (simp add: demo_switch_def demo_task_def state_before_control_def demo_state_def)
  have nd: "\<not> dry ?s3" by simp
  have outb: "?b ?s3 (t_invocation (control_task (demo_switch d b))) = Inr ''b''" for d b
    by simp
  have outz: "?z ?s3 (t_invocation (control_task (demo_switch d b))) = Inr ''z''" for d b
    by simp
  have d1: "get (sw_options (demo_switch [] False)) ''default'' (Some (PStr ''fail''))
            = Inr (PStr ''fail'')"
    by code_simp
  have d2: "get (sw_options (demo_switch ?pass False)) ''default'' (Some (PStr ''fail''))
            = Inr (PStr ''pass'')"
    by code_simp
  have msg: "''Control value '' @ py_repr ''z'' @ '' did not match any cases in switch task ''
               @ py_repr (sw_name (demo_switch [] False)) @ ''.''
             = ''Control value 'z' did not match any cases in switch task 'pick'.''"
    by code_simp
  have w1: "SwitchTask_handle_run ?upd ?b ?pa (demo_switch [] True) [] demo_state
            = (Inr 3, \<lparr>dry = False, multistage = True, world = [''pick[control]'', ''pick[1]'']\<rparr>)"
    using SwitchTask_handle_run_dispatch
            [where self = "demo_switch [] True" and get_task_output = ?b and print_action = ?pa
               and case_task = "demo_task ''pick[1]'' 3", OF acc args1 control nd outb]
    by (simp add: demo_switch_def demo_cases_def demo_task_def)
  have w2: "SwitchTask_handle_run ?upd ?z ?pa (demo_switch [] True) [] demo_state
            = (Inr 0, \<lparr>dry = False, multistage = True, world = [''pick[control]'', ''pick[2]'']\<rparr>)"
    using SwitchTask_handle_run_dispatch
            [where self = "demo_switch [] True" and get_task_output = ?z and print_action = ?pa
               and case_task = "demo_task ''pick[2]'' 0", OF acc args1 control nd outz]
    by (simp add: demo_switch_def demo_cases_def demo_task_def DEFAULT_CASE_def)
  have w3: "SwitchTask_handle_run ?upd ?z ?pa (demo_switch [] False) [] demo_state
            = (Inl (ExecutionError
                     (''Control value 'z' did not match any cases in switch task 'pick'.'')), ?s3)"
    using SwitchTask_handle_run_dispatch
            [where self = "demo_switch [] False" and get_task_output = ?z and print_action = ?pa
               and d = "PStr ''fail''", OF acc args1 control nd outz] d1 msg
    by (simp add: demo_switch_def demo_cases_def DEFAULT_CASE_def)
  have w4: "SwitchTask_handle_run ?upd ?z ?pa (demo_switch ?pass False) [] demo_state
            = (Inr 0, ?s3)"
    using SwitchTask_handle_run_dispatch
            [where self = "demo_switch ?pass False" and get_task_output = ?z
               and print_action = ?pa and d = "PStr ''pass''", OF acc args2 control nd outz] d2
    by (simp add: demo_switch_def demo_cases_def DEFAULT_CASE_def)
  from w1 w2 w3 w4 show ?thesis by blast
qed

section \<open>Validating a switch definition (C6)\<close>

text \<open>
  The counts. Two keys are the same key when they are equal for \<open>==\<close>; an entry never
  leaves the dictionary, its count never falls, and counting a key that is already there
  brings its entry to two at least.
\<close>

lemma same_key_refl: "same_key k k"
  by (simp add: same_key_def)

lemma same_key_sym: "same_key a b \<Longrightarrow> same_key b a"
  by (simp add: same_key_def)

lemma same_key_trans: "same_key a b \<Longrightarrow> same_key b c \<Longrightarrow> same_key a c"
  by (simp add: same_key_def)

lemma increment_positive:
  "\<forall>(c, n)\<in>set cases. n \<ge> 1 \<Longrightarrow> \<forall>(c, n)\<in>set (increment k cases). n \<ge> 1"
  by (induction cases) (auto split: if_splits)

lemma increment_keeps_keys:
  "(c, n) \<in> set cases \<Longrightarrow> \<exists>n'. (c, n') \<in> set (increment k cases) \<and> n \<le> n'"
proof (induction cases)
  case Nil
  then show ?case by simp
next
  case (Cons x cases)
  obtain c0 n0 where x: "x = (c0, n0)" by (cases x)
  show ?case
  proof (cases "(c, n) = x")
    case True
    with x have "(c, if same_key k c0 then n + 1 else n) \<in> set (increment k (x # cases))"
      by simp
    then show ?thesis by (intro exI[of _ "if same_key k c0 then n + 1 else n"]) simp
  next
    case False
    with Cons obtain n' where "(c, n') \<in> set (increment k cases)" "n \<le> n'" by auto
    moreover from False Cons.prems have "(c, n) \<in> set cases" by simp
    ultimately show ?thesis
      using x by (intro exI[of _ "if same_key k c0 then n else n'"]) simp
  qed
qed

lemma increment_has_key: "\<exists>c n. (c, n) \<in> set (increment k cases) \<and> same_key k c"
proof (induction cases)
  case Nil
  show ?case by (intro exI[of _ k] exI[of _ 1]) (simp add: same_key_refl)
next
  case (Cons x cases)
  obtain c0 n0 where x: "x = (c0, n0)" by (cases x)
  from Cons obtain c n where cn: "(c, n) \<in> set (increment k cases)" "same_key k c" by blast
  show ?case
  proof (cases "same_key k c0")
    case True
    with x show ?thesis by (intro exI[of _ c0] exI[of _ "n0 + 1"]) simp
  next
    case False
    with x cn show ?thesis by (intro exI[of _ c] exI[of _ n]) simp
  qed
qed

lemma increment_known_key:
  "\<forall>(c, n)\<in>set cases. n \<ge> 1 \<Longrightarrow> (c, n) \<in> set cases \<Longrightarrow> same_key k c
   \<Longrightarrow> \<exists>c' n'. (c', n') \<in> set (increment k cases) \<and> n' > 1"
proof (induction cases)
  case Nil
  then show ?case by simp
next
  case (Cons x cases)
  obtain c0 n0 where x: "x = (c0, n0)" by (cases x)
  show ?case
  proof (cases "same_key k c0")
    case True
    from Cons.prems(1) x have "n0 \<ge> 1" by auto
    with True x show ?thesis by (intro exI[of _ c0] exI[of _ "n0 + 1"]) simp
  next
    case False
    with Cons.prems x have "(c, n) \<in> set cases" by auto
    with Cons.IH Cons.prems obtain c' n' where "(c', n') \<in> set (increment k cases)" "n' > 1"
      by auto
    with False x show ?thesis by auto
  qed
qed

lemma count_case_keys_hashable:
  "list_all (\<lambda>k. hashable (key_value k)) ks
   \<Longrightarrow> count_case_keys ks cases = Inr (fold increment ks cases)"
  by (induction ks arbitrary: cases) auto

lemma fold_increment_keeps_keys:
  "(c, n) \<in> set cases \<Longrightarrow> \<exists>n'. (c, n') \<in> set (fold increment ks cases) \<and> n \<le> n'"
proof (induction ks arbitrary: cases n)
  case Nil
  then show ?case by auto
next
  case (Cons k ks)
  from increment_keeps_keys[OF Cons.prems] obtain n1 where
    "(c, n1) \<in> set (increment k cases)" "n \<le> n1" by blast
  with Cons.IH[of n1 "increment k cases"] show ?case by fastforce
qed

lemma fold_increment_has_keys:
  "k \<in> set ks \<Longrightarrow> \<exists>c n. (c, n) \<in> set (fold increment ks cases) \<and> same_key k c"
proof (induction ks arbitrary: cases)
  case Nil
  then show ?case by simp
next
  case (Cons a ks)
  show ?case
  proof (cases "k = a")
    case True
    from increment_has_key[of a cases] obtain c n where
      "(c, n) \<in> set (increment a cases)" "same_key a c" by blast
    with fold_increment_keeps_keys[of c n "increment a cases" ks] True show ?thesis by auto
  next
    case False
    with Cons show ?thesis by auto
  qed
qed

lemma fold_increment_duplicate:
  assumes "\<forall>(c, n)\<in>set cases. n \<ge> 1"
    and "(\<exists>c n. (c, n) \<in> set cases \<and> n > 1)
         \<or> (\<exists>k\<in>set ks. \<exists>c n. (c, n) \<in> set cases \<and> same_key k c)
         \<or> \<not> distinct (map (\<lambda>k. key_norm (key_value k)) ks)"
  shows "\<exists>c n. (c, n) \<in> set (fold increment ks cases) \<and> n > 1"
  using assms
proof (induction ks arbitrary: cases)
  case Nil
  then show ?case by simp
next
  case (Cons k ks)
  let ?cases = "increment k cases"
  have pos: "\<forall>(c, n)\<in>set ?cases. n \<ge> 1"
    using Cons.prems(1) by (rule increment_positive)
  from Cons.prems(2) have
    "(\<exists>c n. (c, n) \<in> set cases \<and> n > 1)
     \<or> (\<exists>c n. (c, n) \<in> set cases \<and> same_key k c)
     \<or> (\<exists>k'\<in>set ks. \<exists>c n. (c, n) \<in> set cases \<and> same_key k' c)
     \<or> key_norm (key_value k) \<in> set (map (\<lambda>k. key_norm (key_value k)) ks)
     \<or> \<not> distinct (map (\<lambda>k. key_norm (key_value k)) ks)"
    by (simp only: set_simps list.map distinct.simps ball_simps bex_simps) blast
  then consider
      (dup) "\<exists>c n. (c, n) \<in> set cases \<and> n > 1"
    | (known) "\<exists>c n. (c, n) \<in> set cases \<and> same_key k c"
    | (later) "\<exists>k'\<in>set ks. \<exists>c n. (c, n) \<in> set cases \<and> same_key k' c"
    | (again) "key_norm (key_value k) \<in> set (map (\<lambda>k. key_norm (key_value k)) ks)"
    | (rest) "\<not> distinct (map (\<lambda>k. key_norm (key_value k)) ks)"
    by blast
  then have "(\<exists>c n. (c, n) \<in> set ?cases \<and> n > 1)
         \<or> (\<exists>k\<in>set ks. \<exists>c n. (c, n) \<in> set ?cases \<and> same_key k c)
         \<or> \<not> distinct (map (\<lambda>k. key_norm (key_value k)) ks)"
  proof cases
    case dup
    then obtain c n where "(c, n) \<in> set cases" "n > 1" by blast
    with increment_keeps_keys[of c n cases k] show ?thesis by fastforce
  next
    case known
    then obtain c n where "(c, n) \<in> set cases" "same_key k c" by blast
    from increment_known_key[OF Cons.prems(1) this] show ?thesis by blast
  next
    case later
    then obtain k' c n where "k' \<in> set ks" "(c, n) \<in> set cases" "same_key k' c" by blast
    with increment_keeps_keys[of c n cases k] show ?thesis by blast
  next
    case again
    then obtain k' where k': "k' \<in> set ks" "same_key k' k"
      by (auto simp: same_key_def)
    from increment_has_key[of k cases] obtain c n where
      "(c, n) \<in> set ?cases" "same_key k c" by blast
    with k' same_key_trans show ?thesis by blast
  next
    case rest
    then show ?thesis by blast
  qed
  from Cons.IH[OF pos this] show ?case by simp
qed

lemma distinct_map_key_norm:
  "distinct (map (\<lambda>k. key_norm (key_value k)) ks) \<Longrightarrow> distinct (map key_value ks)"
  by (induction ks) auto

text \<open>The messages are not empty, and which case definitions pass the option check.\<close>

lemma invalid_option_issue_nonempty: "invalid_option_issue task_name c = Some issue \<Longrightarrow> issue \<noteq> []"
  by (auto simp: invalid_option_issue_def split: list.splits option.splits)

lemma invalid_option_issue_None:
  "invalid_option_issue task_name c = None
   \<longleftrightarrow> ''args'' \<notin> set (map fst c) \<and> ''deps'' \<notin> set (map fst c)"
  by (auto simp: invalid_option_issue_def split: list.splits)

lemma duplicate_issue_Some:
  "(c, n) \<in> set cases \<Longrightarrow> n > 1 \<Longrightarrow> \<exists>issue. duplicate_issue task_name cases = Some issue \<and> issue \<noteq> []"
proof -
  assume "(c, n) \<in> set cases" "n > 1"
  then have "filter (\<lambda>(c, count). count > 1) cases \<noteq> []"
    by (auto simp: filter_empty_conv)
  then obtain c' n' rest where "filter (\<lambda>(c, count). count > 1) cases = (c', n') # rest"
    by (cases "filter (\<lambda>(c, count). count > 1) cases") auto
  then show ?thesis by (cases c') (simp_all add: duplicate_issue_def)
qed

lemma default_option_issue_nonempty:
  "default_option_issue task_name task_def cases = Some issue \<Longrightarrow> issue \<noteq> []"
  by (auto simp: default_option_issue_def split: option.splits if_splits)

text \<open>
  The loop over well-formed case definitions ends with an issue that is not empty, or
  with the counts of all their keys, and then no definition has \<open>args\<close> or \<open>deps\<close>.
\<close>

lemma check_cases_outcome:
  assumes "\<forall>c\<in>set cs. list_all (\<lambda>k. hashable (key_value k)) (get_case_keys c)"
  shows "(\<exists>issue. check_cases validate_def task_name (map PDict cs) cases = Inr (Inl issue)
                  \<and> issue \<noteq> [])
       \<or> (check_cases validate_def task_name (map PDict cs) cases
             = Inr (Inr (fold increment (concat (map get_case_keys cs)) cases))
           \<and> (\<forall>c\<in>set cs. ''args'' \<notin> set (map fst c) \<and> ''deps'' \<notin> set (map fst c)))"
  using assms
proof (induction cs arbitrary: cases)
  case Nil
  then show ?case by simp
next
  case (Cons c cs)
  let ?cases = "fold increment (get_case_keys c) cases"
  from Cons.prems have count: "count_case_keys (get_case_keys c) cases = Inr ?cases"
    by (simp add: count_case_keys_hashable)
  from Cons.prems have rest: "\<forall>c\<in>set cs. list_all (\<lambda>k. hashable (key_value k)) (get_case_keys c)"
    by simp
  show ?case
  proof (cases "invalid_option_issue task_name c")
    case (Some issue)
    with count invalid_option_issue_nonempty[OF Some] show ?thesis by simp
  next
    case None
    then have ok: "''args'' \<notin> set (map fst c) \<and> ''deps'' \<notin> set (map fst c)"
      by (simp add: invalid_option_issue_None)
    show ?thesis
    proof (cases "\<exists>issue. validate_def (task_name @ ''['' @ case_label c @ '']'') (PDict c) [''case'']
                            = Some issue \<and> issue \<noteq> []")
      case True
      with count None show ?thesis by auto
    next
      case False
      then have "check_cases validate_def task_name (map PDict (c # cs)) cases
                 = check_cases validate_def task_name (map PDict cs) ?cases"
        using count None by (auto split: option.splits)
      with Cons.IH[OF rest, of ?cases] ok show ?thesis by auto
    qed
  qed
qed

text \<open>
  C6. A switch definition whose \<open>switch\<close> entry is a list of case definitions with
  hashable case values. Validation returns an error message when

  \<^item> two case values are the same, two untagged cases counting as two default cases,
  \<^item> or the \<open>default\<close> option is neither \<open>"pass"\<close> nor \<open>"fail"\<close>,
  \<^item> or there is a \<open>default\<close> option and an untagged (default) case,
  \<^item> or a case definition has an \<open>args\<close> or a \<open>deps\<close> option.
\<close>

theorem SwitchTask_validate_task_def_rejects:
  assumes content: "map_of task_def ''switch'' = Some (PList (map PDict cs))"
    and keys: "\<forall>c\<in>set cs. list_all (\<lambda>k. hashable (key_value k)) (get_case_keys c)"
    and bad:
      "\<not> distinct (map key_value (concat (map get_case_keys cs)))
       \<or> (\<exists>d. map_of task_def ''default'' = Some d \<and> d \<noteq> PStr ''pass'' \<and> d \<noteq> PStr ''fail'')
       \<or> (''default'' \<in> set (map fst task_def) \<and> (\<exists>c\<in>set cs. ''case'' \<notin> set (map fst c)))
       \<or> (\<exists>c\<in>set cs. ''args'' \<in> set (map fst c) \<or> ''deps'' \<in> set (map fst c))"
  shows "\<exists>issue. SwitchTask_validate_task_def validate_def task_name task_def = Inr (Some issue)
                 \<and> issue \<noteq> []"
proof -
  let ?ks = "concat (map get_case_keys cs)"
  let ?cases = "fold increment ?ks []"
  let ?control = "case map_of task_def ''control'' of Some v \<Rightarrow> v | None \<Rightarrow> PNone"
  consider
      (no_control) "\<not> truthy ?control"
    | (control_type) "truthy ?control"
        "(case ?control of
            PDict d \<Rightarrow> \<not> list_ex (\<lambda>key. key \<in> set (map fst d)) [''expr'', ''cmd'', ''script'']
          | _ \<Rightarrow> False)"
    | (control_issue) c cs' where "truthy ?control"
        "\<not> (case ?control of
            PDict d \<Rightarrow> \<not> list_ex (\<lambda>key. key \<in> set (map fst d)) [''expr'', ''cmd'', ''script'']
          | _ \<Rightarrow> False)"
        "validate_def (task_name @ ''[control]'') ?control [] = Some (c # cs')"
    | (cases) "truthy ?control"
        "\<not> (case ?control of
            PDict d \<Rightarrow> \<not> list_ex (\<lambda>key. key \<in> set (map fst d)) [''expr'', ''cmd'', ''script'']
          | _ \<Rightarrow> False)"
        "validate_def (task_name @ ''[control]'') ?control [] = None
         \<or> validate_def (task_name @ ''[control]'') ?control [] = Some []"
    by (cases "validate_def (task_name @ ''[control]'') ?control []"; 
        cases "the (validate_def (task_name @ ''[control]'') ?control [])"; auto)
  then show ?thesis
  proof cases
    case no_control
    then show ?thesis by (simp add: SwitchTask_validate_task_def_def Let_def)
  next
    case control_type
    then show ?thesis by (simp add: SwitchTask_validate_task_def_def Let_def)
  next
    case control_issue
    then show ?thesis by (simp add: SwitchTask_validate_task_def_def Let_def)
  next
    case cases
    then have run: "SwitchTask_validate_task_def validate_def task_name task_def
        = (case check_cases validate_def task_name (map PDict cs) [] of
             Inl e \<Rightarrow> Inl e
           | Inr (Inl issue) \<Rightarrow> Inr (Some issue)
           | Inr (Inr cases) \<Rightarrow>
               (case duplicate_issue task_name cases of
                  Some issue \<Rightarrow> Inr (Some issue)
                | None \<Rightarrow> Inr (default_option_issue task_name task_def cases)))"
      by (auto simp: SwitchTask_validate_task_def_def Let_def content)
    from check_cases_outcome[OF keys, of validate_def task_name "[]"]
    show ?thesis
    proof
      assume "\<exists>issue. check_cases validate_def task_name (map PDict cs) [] = Inr (Inl issue)
                  \<and> issue \<noteq> []"
      with run show ?thesis by auto
    next
      assume finished: "check_cases validate_def task_name (map PDict cs) [] = Inr (Inr ?cases)
           \<and> (\<forall>c\<in>set cs. ''args'' \<notin> set (map fst c) \<and> ''deps'' \<notin> set (map fst c))"
      show ?thesis
      proof (cases "duplicate_issue task_name ?cases")
        case (Some issue)
        from Some have "issue \<noteq> []"
          by (auto simp: duplicate_issue_def split: list.splits case_key.splits)
        with run finished Some show ?thesis by simp
      next
        case None
        have no_dup: "distinct (map key_value ?ks)"
        proof (rule ccontr)
          assume "\<not> distinct (map key_value ?ks)"
          then have "\<not> distinct (map (\<lambda>k. key_norm (key_value k)) ?ks)"
            using distinct_map_key_norm by blast
          then have "\<exists>c n. (c, n) \<in> set ?cases \<and> n > 1"
            by (intro fold_increment_duplicate) auto
          then obtain c n where "(c, n) \<in> set ?cases" "n > 1" by blast
          from duplicate_issue_Some[OF this, of task_name] None show False by simp
        qed
        from finished have no_opts:
          "\<not> (\<exists>c\<in>set cs. ''args'' \<in> set (map fst c) \<or> ''deps'' \<in> set (map fst c))"
          by blast
        with bad no_dup have
          "(\<exists>d. map_of task_def ''default'' = Some d \<and> d \<noteq> PStr ''pass'' \<and> d \<noteq> PStr ''fail'')
           \<or> (''default'' \<in> set (map fst task_def) \<and> (\<exists>c\<in>set cs. ''case'' \<notin> set (map fst c)))"
          by blast
        moreover have "\<exists>d. map_of task_def ''default'' = Some d"
          if "''default'' \<in> set (map fst task_def)"
          using that by (cases "map_of task_def ''default''") (auto simp: map_of_eq_None_iff)
        ultimately obtain d where d: "map_of task_def ''default'' = Some d"
          and why: "(d \<noteq> PStr ''pass'' \<and> d \<noteq> PStr ''fail'')
                    \<or> (\<exists>c\<in>set cs. ''case'' \<notin> set (map fst c))"
          by blast
        have "\<exists>issue. default_option_issue task_name task_def ?cases = Some issue"
        proof (cases "d \<noteq> PStr ''pass'' \<and> d \<noteq> PStr ''fail''")
          case True
          then show ?thesis by (simp add: default_option_issue_def d)
        next
          case False
          with why obtain c where c: "c \<in> set cs" "''case'' \<notin> set (map fst c)" by blast
          then have "get_case_keys c = [Sentinel]"
            by (simp add: get_case_keys_def map_of_eq_None_iff[symmetric] del: map_of_eq_None_iff)
          with c have "Sentinel \<in> set ?ks" by force
          from fold_increment_has_keys[OF this, of "[]"] obtain c' n' where
            "(c', n') \<in> set ?cases" "same_key Sentinel c'" by blast
          then have "list_ex (\<lambda>(c, count). same_key c Sentinel) ?cases"
            by (auto simp: list_ex_iff dest: same_key_sym)
          then show ?thesis by (simp add: default_option_issue_def d)
        qed
        then obtain issue where i: "default_option_issue task_name task_def ?cases = Some issue"
          by blast
        with default_option_issue_nonempty[OF i] run finished None show ?thesis by simp
      qed
    qed
  qed
qed

text \<open>
  The examples of the specification, and one for each other way: two cases tagged \<open>x\<close>;
  two untagged cases; a \<open>default\<close> option that is neither \<open>pass\<close> nor \<open>fail\<close>; a \<open>default\<close>
  option beside a default case; a case with \<open>args\<close>. The subtask validation accepts
  everything here.
\<close>

theorem SwitchTask_validate_task_def_rejects_witness:
  "SwitchTask_validate_task_def (\<lambda>name task_def extra. None) ''pick''
      (demo_switch_def [[(''case'', PStr ''x''), (''cmd'', PStr ''echo 1'')],
                        [(''case'', PStr ''x''), (''cmd'', PStr ''echo 2'')]] [])
     = Inr (Some (''Switch task 'pick' includes more than one case for '' @ py_repr ''x''))
   \<and> SwitchTask_validate_task_def (\<lambda>name task_def extra. None) ''pick''
      (demo_switch_def [[(''cmd'', PStr ''echo 1'')], [(''cmd'', PStr ''echo 2'')]] [])
     = Inr (Some ''Switch task 'pick' includes more than one default case'')
   \<and> SwitchTask_validate_task_def (\<lambda>name task_def extra. None) ''pick''
      (demo_switch_def [[(''case'', PStr ''x''), (''cmd'', PStr ''echo 1'')]]
         [(''default'', PStr ''maybe'')])
     = Inr (Some ''The 'default' option for switch task 'pick' should be one of ('pass', 'fail')'')
   \<and> SwitchTask_validate_task_def (\<lambda>name task_def extra. None) ''pick''
      (demo_switch_def [[(''cmd'', PStr ''echo 1'')]] [(''default'', PStr ''pass'')])
     = Inr (Some ''Switch task 'pick' should not have both a default case and the 'default' option.'')
   \<and> SwitchTask_validate_task_def (\<lambda>name task_def extra. None) ''pick''
      (demo_switch_def [[(''case'', PStr ''x''), (''cmd'', PStr ''echo 1''),
                         (''args'', PList [PStr ''flag''])]] [])
     = Inr (Some (''Case 'x' switch task 'pick' include invalid option '' @ py_repr ''args''))"
proof -
  let ?v = "\<lambda>(name :: string) (task_def :: pyval) (extra :: string list). (None :: string option)"
  let ?x1 = "[(''case'', PStr ''x''), (''cmd'', PStr ''echo 1'')]"
  let ?x2 = "[(''case'', PStr ''x''), (''cmd'', PStr ''echo 2'')]"
  let ?u1 = "[(''cmd'', PStr ''echo 1'')]"
  let ?u2 = "[(''cmd'', PStr ''echo 2'')]"
  let ?xa = "[(''case'', PStr ''x''), (''cmd'', PStr ''echo 1''), (''args'', PList [PStr ''flag''])]"
  have content: "map_of (demo_switch_def cs extra) ''switch'' = Some (PList (map PDict cs))"
    for cs extra
    by (simp add: demo_switch_def_def)
  have k1: "\<forall>c\<in>set [?x1, ?x2]. list_all (\<lambda>k. hashable (key_value k)) (get_case_keys c)"
    and k2: "\<forall>c\<in>set [?u1, ?u2]. list_all (\<lambda>k. hashable (key_value k)) (get_case_keys c)"
    and k3: "\<forall>c\<in>set [?x1]. list_all (\<lambda>k. hashable (key_value k)) (get_case_keys c)"
    and k4: "\<forall>c\<in>set [?u1]. list_all (\<lambda>k. hashable (key_value k)) (get_case_keys c)"
    and k5: "\<forall>c\<in>set [?xa]. list_all (\<lambda>k. hashable (key_value k)) (get_case_keys c)"
    by (simp_all add: get_case_keys_def key_value_def DEFAULT_CASE_def)
  have e1: "SwitchTask_validate_task_def ?v ''pick'' (demo_switch_def [?x1, ?x2] [])
            = Inr (Some (''Switch task 'pick' includes more than one case for '' @ py_repr ''x''))"
    by code_simp
  have e2: "SwitchTask_validate_task_def ?v ''pick'' (demo_switch_def [?u1, ?u2] [])
            = Inr (Some ''Switch task 'pick' includes more than one default case'')"
    by code_simp
  have e3: "SwitchTask_validate_task_def ?v ''pick''
              (demo_switch_def [?x1] [(''default'', PStr ''maybe'')])
            = Inr (Some ''The 'default' option for switch task 'pick' should be one of ('pass', 'fail')'')"
    by code_simp
  have e4: "SwitchTask_validate_task_def ?v ''pick''
              (demo_switch_def [?u1] [(''default'', PStr ''pass'')])
            = Inr (Some ''Switch task 'pick' should not have both a default case and the 'default' option.'')"
    by code_simp
  have e5: "SwitchTask_validate_task_def ?v ''pick'' (demo_switch_def [?xa] [])
            = Inr (Some (''Case 'x' switch task 'pick' include invalid option '' @ py_repr ''args''))"
    by code_simp
  have r1: "\<exists>issue. SwitchTask_validate_task_def ?v ''pick'' (demo_switch_def [?x1, ?x2] [])
                      = Inr (Some issue) \<and> issue \<noteq> []"
    by (rule SwitchTask_validate_task_def_rejects[OF content k1])
       (simp add: get_case_keys_def key_value_def)
  have r2: "\<exists>issue. SwitchTask_validate_task_def ?v ''pick'' (demo_switch_def [?u1, ?u2] [])
                      = Inr (Some issue) \<and> issue \<noteq> []"
    by (rule SwitchTask_validate_task_def_rejects[OF content k2])
       (simp add: get_case_keys_def key_value_def)
  have r3: "\<exists>issue. SwitchTask_validate_task_def ?v ''pick''
                        (demo_switch_def [?x1] [(''default'', PStr ''maybe'')])
                      = Inr (Some issue) \<and> issue \<noteq> []"
    by (rule SwitchTask_validate_task_def_rejects[OF content k3])
       (simp add: demo_switch_def_def)
  have r4: "\<exists>issue. SwitchTask_validate_task_def ?v ''pick''
                        (demo_switch_def [?u1] [(''default'', PStr ''pass'')])
                      = Inr (Some issue) \<and> issue \<noteq> []"
    by (rule SwitchTask_validate_task_def_rejects[OF content k4])
       (simp add: demo_switch_def_def)
  have r5: "\<exists>issue. SwitchTask_validate_task_def ?v ''pick'' (demo_switch_def [?xa] [])
                      = Inr (Some issue) \<and> issue \<noteq> []"
    by (rule SwitchTask_validate_task_def_rejects[OF content k5]) simp
  from r1 r2 r3 r4 r5 e1 e2 e3 e4 e5 show ?thesis by blast
qed

section \<open>Looking an option up (C7)\<close>

lemma keyword_has_no_trailing_underscore: "iskeyword k \<Longrightarrow> last k \<noteq> CHR ''_''"
  by (auto simp: iskeyword_def kwlist_def)

lemma attr_name_idem: "attr_name (attr_name key) = attr_name key"
  using keyword_has_no_trailing_underscore[of "key @ ''_''"] by (auto simp: attr_name_def)

lemma declared_field_is_public:
  assumes "get_fields cls = Inr flds" and "map_of flds k = Some t"
  shows "\<not> startswith k ''_''"
proof -
  from assms(1) obtain xs where "flds = filter (\<lambda>(key, t). \<not> startswith key ''_'') xs"
    by (auto simp: get_fields_def split: sum.splits)
  with map_of_SomeD[OF assms(2)] show ?thesis by auto
qed

lemma type_of_declared:
  assumes "get_fields cls = Inr flds" and "map_of flds (attr_name key) = Some t"
  shows "type_of cls (attr_name key)
         = (if get_origin t = OUnion then Inr (Tuple (get_args t))
            else if get_origin t \<in> {ODict, OMapping, OMutableMapping} then Inr (Single TDict)
            else if get_origin t \<in> {OList, OSequence} then Inr (Single TList)
            else Inr (Single t))"
  using assms by (simp add: type_of_def attr_name_idem)

lemma get_declared:
  assumes flds: "get_fields (options_class self) = Inr flds"
    and t: "map_of flds (attr_name key) = Some t"
  shows "get self key dflt
         = (case getattr self (attr_name key) dflt of
              Some result \<Rightarrow> Inr result
            | None \<Rightarrow>
                (case type_of (options_class self) (attr_name key) of
                   Inl e \<Rightarrow> Inl e
                 | Inr (Tuple []) \<Rightarrow> Inl (IndexError ''tuple index out of range'')
                 | Inr (Tuple (t # ts)) \<Rightarrow> construct t
                 | Inr (Single t) \<Rightarrow> construct t))"
proof -
  from t have "attr_name key \<in> set (map fst flds)"
    by (metis map_of_eq_None_iff option.distinct(1) set_map)
  then show ?thesis
    by (cases "hasattr self (attr_name key)") (simp_all add: get_def flds Let_def)
qed

lemma getattr_declared:
  assumes "get_fields (options_class self) = Inr flds" and "map_of flds k = Some t"
  shows "getattr self k None
         = (case map_of (bound self) k of
              Some v \<Rightarrow> Some v
            | None \<Rightarrow> class_getattr (options_class self) k)"
proof -
  from declared_field_is_public[OF assms] have "k \<noteq> ''_PoeOptions__annotations''" by auto
  then show ?thesis by (simp add: getattr_def split: option.splits)
qed

text \<open>
  C7, as amended. For an instance of a class with a field table, and \<open>k\<close> the key with
  an underscore appended when it is a keyword:

  \<^item> a declared \<open>k\<close> that is bound gives the bound value;
  \<^item> a declared \<open>k\<close> that is not bound gives the class attribute of that name (the
    literal default) when there is one;
  \<^item> a declared \<open>k\<close> with neither gives the empty dictionary when its type is
    mapping-like, the empty list when it is sequence-like, and the first member called
    with no argument when it is a union;
  \<^item> \<open>KeyError\<close> is raised exactly when \<open>k\<close> is neither a declared field nor an attribute
    of the instance or of its class.
\<close>

theorem get_value_or_KeyError:
  assumes flds: "get_fields (options_class self) = Inr flds"
    and k: "k = attr_name key"
  shows
    "(map_of flds k = Some t \<and> map_of (bound self) k = Some v \<longrightarrow> get self key None = Inr v)
     \<and> (map_of flds k = Some t \<and> map_of (bound self) k = None
          \<and> class_getattr (options_class self) k = Some d
        \<longrightarrow> get self key None = Inr d)
     \<and> (map_of flds k = Some t \<and> map_of (bound self) k = None
          \<and> class_getattr (options_class self) k = None
        \<longrightarrow> (get_origin t \<in> {ODict, OMapping, OMutableMapping} \<longrightarrow> get self key None = Inr (PDict []))
            \<and> (get_origin t \<in> {OList, OSequence} \<longrightarrow> get self key None = Inr (PList []))
            \<and> (t = TUnion (m # ms) \<longrightarrow> get self key None = construct m))
     \<and> ((\<exists>msg. get self key None = Inl (KeyError msg))
          \<longleftrightarrow> map_of flds k = None \<and> \<not> hasattr self k)"
proof -
  have declared: "get self key None
        = (case map_of (bound self) k of
             Some v \<Rightarrow> Inr v
           | None \<Rightarrow>
               (case class_getattr (options_class self) k of
                  Some d \<Rightarrow> Inr d
                | None \<Rightarrow>
                    (if get_origin t = OUnion
                     then (case get_args t of
                             [] \<Rightarrow> Inl (IndexError ''tuple index out of range'')
                           | m # ms \<Rightarrow> construct m)
                     else if get_origin t \<in> {ODict, OMapping, OMutableMapping} then Inr (PDict [])
                     else if get_origin t \<in> {OList, OSequence} then Inr (PList [])
                     else construct t)))"
    if "map_of flds k = Some t" for t
    using that get_declared[OF flds, of key t None] getattr_declared[OF flds, of k t]
      type_of_declared[OF flds, of key t]
    by (auto simp: k split: option.splits list.splits)
  have attribute: "\<exists>r. get self key None = Inr r" if "hasattr self k"
    using that by (auto simp: get_def k[symmetric] Let_def hasattr_def split: option.splits)
  have unknown: "get self key None
        = Inl (KeyError (class_name (options_class self) @ '' has no such attribute ''
                           @ py_repr k))"
    if "map_of flds k = None" "\<not> hasattr self k"
  proof -
    from that(1) have "k \<notin> set (map fst flds)" by (simp add: map_of_eq_None_iff)
    with that(2) show ?thesis by (simp add: get_def flds k[symmetric] Let_def)
  qed
  have no_KeyError: "get self key None \<noteq> Inl (KeyError msg)" if "map_of flds k = Some t" for t msg
    using declared[OF that] construct_err
    by (auto split: option.splits list.splits if_splits)
  have iff: "(\<exists>msg. get self key None = Inl (KeyError msg))
             \<longleftrightarrow> map_of flds k = None \<and> \<not> hasattr self k"
  proof (cases "map_of flds k")
    case None
    then show ?thesis using attribute unknown[OF None] by (cases "hasattr self k") auto
  next
    case (Some t)
    with no_KeyError[OF Some] show ?thesis by simp
  qed
  from declared iff show ?thesis by simp
qed

text \<open>
  C7, as stated, fails in its last part: \<open>update\<close> is no declared field of the root's
  options, and \<open>get("update")\<close> raises nothing: it returns the method of that name.
\<close>

theorem get_method_name_returns_method:
  "PoeOptions_init ProjectConfig_ConfigOptions (PDict [(''verbosity'', PInt 2)]) = Inr demo_options
   \<and> ''update'' \<notin> set (declared_fields ProjectConfig_ConfigOptions)
   \<and> get demo_options ''update'' None = Inr (PObj ''method'')"
  by code_simp

lemma fields_of_ProjectConfig:
  "get_fields ProjectConfig_ConfigOptions = Inr
     [(''default_task_type'', TStr),
      (''default_array_task_type'', TStr),
      (''default_array_item_task_type'', TStr),
      (''env'', TMappingOf TStr TStr),
      (''envfile'', TUnion [TStr, TSequenceOf TStr]),
      (''executor'', TMappingOf TStr TStr),
      (''include'', TUnion [TStr, TSequenceOf TStr, TMappingOf TStr TStr]),
      (''poetry_command'', TStr),
      (''poetry_hooks'', TMappingOf TStr TStr),
      (''shell_interpreter'', TUnion [TStr, TSequenceOf TStr]),
      (''verbosity'', TInt),
      (''tasks'', TMappingOf TStr TAny)]"
  by (simp add: get_fields_def ProjectConfig_ConfigOptions_def PoeOptions_def dict_update_def)

text \<open>
  On the root's options with \<open>verbosity\<close> bound to 2: the bound value, a literal default,
  the empty dictionary of a mapping-typed field, the empty string of a union that starts
  with \<open>str\<close>, the empty list of a sequence-typed field of the task options, and the
  \<open>KeyError\<close> for a name that is neither a field nor an attribute.
\<close>

theorem get_value_or_KeyError_witness:
  "get demo_options ''verbosity'' None = Inr (PInt 2)
   \<and> get demo_options ''default_task_type'' None = Inr (PStr ''cmd'')
   \<and> get demo_options ''env'' None = Inr (PDict [])
   \<and> get demo_options ''envfile'' None = Inr (PStr [])
   \<and> get \<lparr>options_class = demo_TaskOptions, bound = []\<rparr> ''deps'' None = Inr (PList [])
   \<and> (\<exists>msg. get demo_options ''nope'' None = Inl (KeyError msg))"
proof -
  let ?flds = "[(''default_task_type'', TStr),
      (''default_array_task_type'', TStr),
      (''default_array_item_task_type'', TStr),
      (''env'', TMappingOf TStr TStr),
      (''envfile'', TUnion [TStr, TSequenceOf TStr]),
      (''executor'', TMappingOf TStr TStr),
      (''include'', TUnion [TStr, TSequenceOf TStr, TMappingOf TStr TStr]),
      (''poetry_command'', TStr),
      (''poetry_hooks'', TMappingOf TStr TStr),
      (''shell_interpreter'', TUnion [TStr, TSequenceOf TStr]),
      (''verbosity'', TInt),
      (''tasks'', TMappingOf TStr TAny)]"
  let ?task = "\<lparr>options_class = demo_TaskOptions, bound = []\<rparr>"
  let ?task_flds = "[(''args'', TUnion [TDict, TList]), (''capture_stdout'', TStr),
                     (''deps'', TSequenceOf TStr)]"
  have f: "get_fields (options_class demo_options) = Inr ?flds"
    by (simp add: demo_options_def fields_of_ProjectConfig)
  have ft: "get_fields (options_class ?task) = Inr ?task_flds"
    by (simp add: get_fields_def demo_TaskOptions_def PoeOptions_def dict_update_def)
  have k: "''verbosity'' = attr_name ''verbosity''"
      "''default_task_type'' = attr_name ''default_task_type''"
      "''env'' = attr_name ''env''" "''envfile'' = attr_name ''envfile''"
      "''deps'' = attr_name ''deps''" "''nope'' = attr_name ''nope''"
    by (simp_all add: attr_name_def iskeyword_def kwlist_def)
  have b: "map_of (bound demo_options) ''verbosity'' = Some (PInt 2)"
      "map_of (bound demo_options) ''default_task_type'' = None"
      "map_of (bound demo_options) ''env'' = None"
      "map_of (bound demo_options) ''envfile'' = None"
      "map_of (bound ?task) ''deps'' = None"
    by (simp_all add: demo_options_def)
  have c: "class_getattr (options_class demo_options) ''default_task_type'' = Some (PStr ''cmd'')"
      "class_getattr (options_class demo_options) ''env'' = None"
      "class_getattr (options_class demo_options) ''envfile'' = None"
      "class_getattr (options_class ?task) ''deps'' = None"
    by (simp_all add: demo_options_def ProjectConfig_ConfigOptions_def demo_TaskOptions_def
          PoeOptions_def object_attrs_def)
  have h: "\<not> hasattr demo_options ''nope''"
    by (simp add: hasattr_def getattr_def demo_options_def ProjectConfig_ConfigOptions_def
          PoeOptions_def object_attrs_def)
  have w1: "get demo_options ''verbosity'' None = Inr (PInt 2)"
    using get_value_or_KeyError[OF f k(1), of TInt "PInt 2"] b(1) by simp
  have w2: "get demo_options ''default_task_type'' None = Inr (PStr ''cmd'')"
    using get_value_or_KeyError[OF f k(2), of TStr _ "PStr ''cmd''"] b(2) c(1) by simp
  have w3: "get demo_options ''env'' None = Inr (PDict [])"
    using get_value_or_KeyError[OF f k(3), of "TMappingOf TStr TStr"] b(3) c(2) by simp
  have w4: "get demo_options ''envfile'' None = Inr (PStr [])"
    using get_value_or_KeyError[OF f k(4), of "TUnion [TStr, TSequenceOf TStr]" _ _ TStr
            "[TSequenceOf TStr]"] b(4) c(3)
    by simp
  have w5: "get ?task ''deps'' None = Inr (PList [])"
    using get_value_or_KeyError[OF ft k(5), of "TSequenceOf TStr"] b(5) c(4) by simp
  have w6: "\<exists>msg. get demo_options ''nope'' None = Inl (KeyError msg)"
    using get_value_or_KeyError[OF f k(6)] h by simp
  from w1 w2 w3 w4 w5 w6 show ?thesis by blast
qed

section \<open>Loading the includes (C9)\<close>



text \<open>The loop changes nothing of the configuration but the list of partitions.\<close>

lemma include_path_of_included [simp]:
  "include_path_of fs (self\<lparr>included_config := cs\<rparr>) inc = include_path_of fs self inc"
  by (simp add: include_path_of_def)

lemma include_cwd_included [simp]:
  "include_cwd (self\<lparr>included_config := cs\<rparr>) inc = include_cwd self inc"
  by (simp add: include_cwd_def project_dir_str_def split: option.splits)

lemma load_included_included [simp]:
  "load_included fs (self\<lparr>included_config := cs\<rparr>) inc p = load_included fs self inc p"
  by (simp add: load_included_def cong: sum.case_cong)






end
